theory Spec2Isabelle
  imports Complex_Main "HOL-Library.Finite_Map"
begin

section \<open>Numbers\<close>

text \<open>
  The program computes with JavaScript numbers. Values that enter the program (candle
  fields, configuration values, capital) are finite and are modelled as \<open>real\<close>;
  arithmetic is exact (no rounding, no overflow) and the sign of zero is not tracked.
  The one operation whose rounding to a double is kept is the product that decays the
  exploration rate at the end of \<open>train\<close>.
  A value the program computes by dividing by a quantity that can be zero can leave the
  finite numbers, and JavaScript does not raise there: it continues with \<open>Infinity\<close>,
  \<open>-Infinity\<close> or \<open>NaN\<close>. Such values are of type \<open>num\<close>, whose operations
  follow IEEE 754 on the non-finite values (a zero divisor counts as \<open>+0\<close>).
\<close>

datatype num = Fin real | PInf | NInf | NaN

fun nneg :: "num \<Rightarrow> num" where
  "nneg (Fin a) = Fin (- a)"
| "nneg PInf = NInf"
| "nneg NInf = PInf"
| "nneg NaN = NaN"

fun nadd :: "num \<Rightarrow> num \<Rightarrow> num" where
  "nadd (Fin a) (Fin b) = Fin (a + b)"
| "nadd NaN y = NaN"
| "nadd x NaN = NaN"
| "nadd PInf NInf = NaN"
| "nadd NInf PInf = NaN"
| "nadd PInf y = PInf"
| "nadd x PInf = PInf"
| "nadd NInf y = NInf"
| "nadd x NInf = NInf"

definition inf_signed :: "bool \<Rightarrow> num" where
  "inf_signed positive = (if positive then PInf else NInf)"

fun nmul :: "num \<Rightarrow> num \<Rightarrow> num" where
  "nmul (Fin a) (Fin b) = Fin (a * b)"
| "nmul NaN y = NaN"
| "nmul x NaN = NaN"
| "nmul (Fin a) PInf = (if a = 0 then NaN else inf_signed (0 < a))"
| "nmul (Fin a) NInf = (if a = 0 then NaN else inf_signed (a < 0))"
| "nmul PInf (Fin b) = (if b = 0 then NaN else inf_signed (0 < b))"
| "nmul NInf (Fin b) = (if b = 0 then NaN else inf_signed (b < 0))"
| "nmul PInf PInf = PInf"
| "nmul PInf NInf = NInf"
| "nmul NInf PInf = NInf"
| "nmul NInf NInf = PInf"

fun ndiv :: "num \<Rightarrow> num \<Rightarrow> num" where
  "ndiv (Fin a) (Fin b) =
     (if b \<noteq> 0 then Fin (a / b) else if a = 0 then NaN else inf_signed (0 < a))"
| "ndiv NaN y = NaN"
| "ndiv x NaN = NaN"
| "ndiv (Fin a) PInf = Fin 0"
| "ndiv (Fin a) NInf = Fin 0"
| "ndiv PInf (Fin b) = inf_signed (0 \<le> b)"
| "ndiv NInf (Fin b) = inf_signed (b < 0)"
| "ndiv PInf y = NaN"
| "ndiv NInf y = NaN"

fun nlt :: "num \<Rightarrow> num \<Rightarrow> bool" where
  "nlt (Fin a) (Fin b) = (a < b)"
| "nlt NaN y = False"
| "nlt x NaN = False"
| "nlt x NInf = False"
| "nlt PInf y = False"
| "nlt NInf y = True"
| "nlt x PInf = True"

fun nle :: "num \<Rightarrow> num \<Rightarrow> bool" where
  "nle (Fin a) (Fin b) = (a \<le> b)"
| "nle NaN y = False"
| "nle x NaN = False"
| "nle NInf y = True"
| "nle x PInf = True"
| "nle x NInf = False"
| "nle PInf y = False"

fun nabs :: "num \<Rightarrow> num" where
  "nabs (Fin a) = Fin \<bar>a\<bar>"
| "nabs PInf = PInf"
| "nabs NInf = PInf"
| "nabs NaN = NaN"

text \<open>
  The arithmetic and comparison operators of the source are written with the usual
  symbols on \<open>num\<close>. \<open>a > b\<close> abbreviates \<open>b < a\<close> and \<open>a \<ge> b\<close> abbreviates
  \<open>b \<le> a\<close>, which is also how IEEE 754 relates them; every comparison with \<open>NaN\<close>
  is false, so \<open>\<not> a < b\<close> is not \<open>b \<le> a\<close>.
\<close>

instantiation num :: "{plus, minus, uminus, times, inverse, abs, ord}"
begin

definition plus_num :: "num \<Rightarrow> num \<Rightarrow> num" where
  "plus_num a b = nadd a b"

definition minus_num :: "num \<Rightarrow> num \<Rightarrow> num" where
  "minus_num a b = nadd a (nneg b)"

definition uminus_num :: "num \<Rightarrow> num" where
  "uminus_num a = nneg a"

definition times_num :: "num \<Rightarrow> num \<Rightarrow> num" where
  "times_num a b = nmul a b"

definition divide_num :: "num \<Rightarrow> num \<Rightarrow> num" where
  "divide_num a b = ndiv a b"

definition inverse_num :: "num \<Rightarrow> num" where
  "inverse_num a = ndiv (Fin 1) a"

definition abs_num :: "num \<Rightarrow> num" where
  "abs_num a = nabs a"

definition less_num :: "num \<Rightarrow> num \<Rightarrow> bool" where
  "less_num a b = nlt a b"

definition less_eq_num :: "num \<Rightarrow> num \<Rightarrow> bool" where
  "less_eq_num a b = nle a b"

instance ..

end

text \<open>\<open>a === b\<close> on numbers: \<open>NaN\<close> equals nothing, itself included.\<close>

definition strict_eq :: "num \<Rightarrow> num \<Rightarrow> bool" where
  "strict_eq a b = (a \<noteq> NaN \<and> a = b)"

text \<open>\<open>Math.max\<close>, \<open>Math.min\<close>: \<open>NaN\<close> if an argument is \<open>NaN\<close>.\<close>

definition Math_max :: "num \<Rightarrow> num \<Rightarrow> num" where
  "Math_max a b = (if a = NaN \<or> b = NaN then NaN else if a \<le> b then b else a)"

definition Math_min :: "num \<Rightarrow> num \<Rightarrow> num" where
  "Math_min a b = (if a = NaN \<or> b = NaN then NaN else if a \<le> b then a else b)"

fun Math_floor :: "num \<Rightarrow> num" where
  "Math_floor (Fin a) = Fin (of_int \<lfloor>a\<rfloor>)"
| "Math_floor x = x"

fun Math_sqrt :: "num \<Rightarrow> num" where
  "Math_sqrt (Fin a) = (if a < 0 then NaN else Fin (sqrt a))"
| "Math_sqrt PInf = PInf"
| "Math_sqrt NInf = NaN"
| "Math_sqrt NaN = NaN"

text \<open>\<open>isFinite\<close>.\<close>

fun isFinite :: "num \<Rightarrow> bool" where
  "isFinite (Fin a) = True"
| "isFinite x = False"

text \<open>\<open>xs.reduce((a, b) => a + b, 0)\<close>.\<close>

definition sum_num :: "num list \<Rightarrow> num" where
  "sum_num xs = foldl (+) (Fin 0) xs"

text \<open>
  \<open>xs.slice(-n)\<close> for a whole number \<open>n\<close>: the last \<open>n\<close> elements, all of them when
  there are fewer; \<open>slice(-0)\<close> is \<open>slice(0)\<close>, the whole array.
\<close>

definition slice_last :: "nat \<Rightarrow> 'a list \<Rightarrow> 'a list" where
  "slice_last n xs = (if n = 0 then xs else drop (length xs - n) xs)"


section \<open>Market-structure analyzer (server/smc.ts)\<close>

text \<open>
  A candle. \<open>time\<close> is an integer timestamp; the five other fields are finite numbers.
  The field \<open>open\<close> of the source is \<open>open'\<close> here.
\<close>

record Candle =
  time :: int
  open' :: real
  high :: real
  low :: real
  close :: real
  volume :: real

text \<open>
  A kill zone. The source also carries an Arabic display name (\<open>nameAr\<close>) that no
  function reads; it is left out.
\<close>

record KillZone =
  name :: string
  startHour :: nat
  endHour :: nat
  isActive :: bool
  description :: string

datatype gap_type = Bullish | Bearish

record FairValueGap =
  fvg_type :: gap_type
  startPrice :: real
  endPrice :: real
  gapSize :: real
  gapPercent :: num
  fvg_timestamp :: int
  filled :: bool

record OrderBlock =
  ob_type :: gap_type
  priceHigh :: real
  priceLow :: real
  strength :: num
  ob_timestamp :: int
  tested :: bool

datatype sweep_type = Buy_side | Sell_side

record LiquiditySweep =
  ls_type :: sweep_type
  level :: real
  sweptAt :: int
  priceAfterSweep :: real
  reversal :: bool

datatype market_structure = Bullish_structure | Bearish_structure | Ranging

datatype bias = Long | Short | Neutral

record SMCAnalysis =
  symbol :: string
  timestamp :: int
  killZones :: "KillZone list"
  activeKillZone :: "KillZone option"
  fairValueGaps :: "FairValueGap list"
  orderBlocks :: "OrderBlock list"
  liquiditySweeps :: "LiquiditySweep list"
  marketStructure :: market_structure
  bias :: bias
  confidenceScore :: real

text \<open>\<open>KILL_ZONES\<close>: name, start hour, end hour, description.\<close>

definition KILL_ZONES :: "(string \<times> nat \<times> nat \<times> string) list" where
  "KILL_ZONES =
     [(''Asian Session'', 0, 8, ''Low volatility consolidation phase''),
      (''London Session'', 8, 12, ''High volatility, major moves initiate here''),
      (''NY AM Session'', 13, 16, ''Continuation or reversal of London moves''),
      (''NY PM Session'', 19, 21, ''Late day reversals and position squaring'')]"

text \<open>
  \<open>getActiveKillZones\<close> reads the wall clock; the UTC hour it reads is the parameter
  \<open>utcHour\<close>.
\<close>

definition getActiveKillZones :: "nat \<Rightarrow> KillZone list" where
  "getActiveKillZones utcHour =
     map (\<lambda>(n, s, e, d).
            \<lparr>name = n, startHour = s, endHour = e,
             isActive = (utcHour \<ge> s \<and> utcHour < e), description = d\<rparr>)
         KILL_ZONES"

text \<open>
  One pass of the loop of \<open>detectFairValueGaps\<close>, on the candles at \<open>i - 2\<close>,
  \<open>i - 1\<close> and \<open>i\<close>: the gaps it pushes, the bearish test first.
\<close>

definition fvg_at :: "Candle \<Rightarrow> Candle \<Rightarrow> Candle \<Rightarrow> FairValueGap list" where
  "fvg_at candle1 candle2 candle3 =
     (if low candle1 > high candle3 then
        (let gapSize = low candle1 - high candle3;
             gapPercent = (Fin gapSize / Fin (close candle2)) * Fin 100
         in if gapPercent > Fin (1/10) then
              [\<lparr>fvg_type = Bearish, startPrice = high candle3, endPrice = low candle1,
                gapSize = gapSize, gapPercent = gapPercent,
                fvg_timestamp = time candle2, filled = False\<rparr>]
            else [])
      else [])
     @
     (if low candle3 > high candle1 then
        (let gapSize = low candle3 - high candle1;
             gapPercent = (Fin gapSize / Fin (close candle2)) * Fin 100
         in if gapPercent > Fin (1/10) then
              [\<lparr>fvg_type = Bullish, startPrice = high candle1, endPrice = low candle3,
                gapSize = gapSize, gapPercent = gapPercent,
                fvg_timestamp = time candle2, filled = False\<rparr>]
            else [])
      else [])"

definition detectFairValueGaps :: "Candle list \<Rightarrow> FairValueGap list" where
  "detectFairValueGaps candles =
     slice_last 10
       (concat (map (\<lambda>i. fvg_at (candles ! (i - 2)) (candles ! (i - 1)) (candles ! i))
                    [2 ..< length candles]))"

text \<open>
  One pass of the loop of \<open>detectOrderBlocks\<close>: \<open>candle\<close> is at \<open>i - 1\<close>,
  \<open>prevCandles\<close> are those at \<open>i - 3\<close> and \<open>i - 2\<close>, \<open>nextCandle\<close> is at \<open>i\<close>.
\<close>

definition ob_at :: "Candle list \<Rightarrow> Candle \<Rightarrow> Candle \<Rightarrow> OrderBlock list" where
  "ob_at prevCandles candle nextCandle =
     (let isBullishCandle = close candle > open' candle;
          isBearishCandle = close candle < open' candle;
          prevTrend = foldl (\<lambda>acc c. acc + (close c - open' c)) 0 prevCandles
      in
       (if isBullishCandle \<and> prevTrend < 0 then
          (let bodySize = \<bar>close candle - open' candle\<bar>;
               range = high candle - low candle;
               strength = (Fin bodySize / Fin range) * Fin 100
           in if strength > Fin 50 then
                [\<lparr>ob_type = Bullish,
                  priceHigh = max (open' candle) (close candle),
                  priceLow = min (open' candle) (close candle),
                  strength = Math_min strength (Fin 100),
                  ob_timestamp = time candle,
                  tested = (low nextCandle \<le> high candle)\<rparr>]
              else [])
        else [])
       @
       (if isBearishCandle \<and> prevTrend > 0 then
          (let bodySize = \<bar>close candle - open' candle\<bar>;
               range = high candle - low candle;
               strength = (Fin bodySize / Fin range) * Fin 100
           in if strength > Fin 50 then
                [\<lparr>ob_type = Bearish,
                  priceHigh = max (open' candle) (close candle),
                  priceLow = min (open' candle) (close candle),
                  strength = Math_min strength (Fin 100),
                  ob_timestamp = time candle,
                  tested = (high nextCandle \<ge> low candle)\<rparr>]
              else [])
        else []))"

definition detectOrderBlocks :: "Candle list \<Rightarrow> OrderBlock list" where
  "detectOrderBlocks candles =
     slice_last 10
       (concat (map (\<lambda>i. ob_at [candles ! (i - 3), candles ! (i - 2)]
                               (candles ! (i - 1)) (candles ! i))
                    [3 ..< length candles]))"

text \<open>
  \<open>detectLiquiditySweeps\<close>. The first loop collects the swing highs and lows with
  their indices. The second loop visits every candle from index 5 on and, for it, every
  swing high and then every swing low; \<open>candles[i + 1] || candle\<close> is the next candle,
  or the candle itself at the end of the series.
\<close>

definition recentHighs :: "Candle list \<Rightarrow> (real \<times> nat) list" where
  "recentHighs candles =
     concat (map (\<lambda>i. let prev = candles ! (i - 1); curr = candles ! i;
                            next = candles ! (i + 1)
                        in if high prev < high curr \<and> high next < high curr
                           then [(high curr, i)] else [])
                 [2 ..< length candles - 1])"

definition recentLows :: "Candle list \<Rightarrow> (real \<times> nat) list" where
  "recentLows candles =
     concat (map (\<lambda>i. let prev = candles ! (i - 1); curr = candles ! i;
                            next = candles ! (i + 1)
                        in if low prev > low curr \<and> low next > low curr
                           then [(low curr, i)] else [])
                 [2 ..< length candles - 1])"

definition sweeps_at :: "Candle list \<Rightarrow> nat \<Rightarrow> LiquiditySweep list" where
  "sweeps_at candles i =
     (let candle = candles ! i;
          nextCandle = (if i + 1 < length candles then candles ! (i + 1) else candle)
      in
       concat (map (\<lambda>(price, index).
                      if int index < int i - 3 \<and> high candle > price * (1001 / 1000) then
                        [\<lparr>ls_type = Buy_side, level = price, sweptAt = time candle,
                          priceAfterSweep = close nextCandle,
                          reversal = (close nextCandle < price)\<rparr>]
                      else [])
                   (recentHighs candles))
       @
       concat (map (\<lambda>(price, index).
                      if int index < int i - 3 \<and> low candle < price * (999 / 1000) then
                        [\<lparr>ls_type = Sell_side, level = price, sweptAt = time candle,
                          priceAfterSweep = close nextCandle,
                          reversal = (close nextCandle > price)\<rparr>]
                      else [])
                   (recentLows candles)))"

definition detectLiquiditySweeps :: "Candle list \<Rightarrow> LiquiditySweep list" where
  "detectLiquiditySweeps candles =
     slice_last 10 (concat (map (sweeps_at candles) [5 ..< length candles]))"

text \<open>
  \<open>determineMarketStructure\<close>: the four counters of the loop over the trailing 20
  candles, each the number of indices from 4 on at which its test holds.
\<close>

definition stride_count :: "(Candle \<Rightarrow> Candle \<Rightarrow> bool) \<Rightarrow> Candle list \<Rightarrow> nat" where
  "stride_count test recentCandles =
     length (filter (\<lambda>i. test (recentCandles ! i) (recentCandles ! (i - 4)))
                    [4 ..< length recentCandles])"

definition determineMarketStructure :: "Candle list \<Rightarrow> market_structure" where
  "determineMarketStructure candles =
     (if length candles < 10 then Ranging
      else
        let recentCandles = slice_last 20 candles;
            higherHighs = stride_count (\<lambda>curr prev. high curr > high prev) recentCandles;
            lowerLows = stride_count (\<lambda>curr prev. low curr < low prev) recentCandles;
            higherLows = stride_count (\<lambda>curr prev. low curr > low prev) recentCandles;
            lowerHighs = stride_count (\<lambda>curr prev. high curr < high prev) recentCandles;
            bullishScore = real (higherHighs + higherLows);
            bearishScore = real (lowerLows + lowerHighs)
        in if bullishScore > bearishScore * (13 / 10) then Bullish_structure
           else if bearishScore > bullishScore * (13 / 10) then Bearish_structure
           else Ranging)"

text \<open>
  \<open>determineBias\<close> (its parameter \<open>orderBlocks\<close> is \<open>blocks\<close> here). The pair
  carried through the loops is (\<open>bullishScore\<close>, \<open>bearishScore\<close>).
\<close>

definition determineBias ::
  "market_structure \<Rightarrow> OrderBlock list \<Rightarrow> FairValueGap list \<Rightarrow> LiquiditySweep list
     \<Rightarrow> bias \<times> real" where
  "determineBias structure blocks fvgs sweeps =
     (let s0 = (if structure = Bullish_structure then (30, 0)
                else if structure = Bearish_structure then (0, 30) else (0, 0));
          s1 = foldl (\<lambda>(bull, bear) ob.
                        (if ob_type ob = Bullish \<and> \<not> tested ob then bull + 10 else bull,
                         if ob_type ob = Bearish \<and> \<not> tested ob then bear + 10 else bear))
                     s0 (slice_last 5 blocks);
          s2 = foldl (\<lambda>(bull, bear) fvg.
                        (if fvg_type fvg = Bullish \<and> \<not> filled fvg then bull + 8 else bull,
                         if fvg_type fvg = Bearish \<and> \<not> filled fvg then bear + 8 else bear))
                     s1 (slice_last 5 fvgs);
          s3 = foldl (\<lambda>(bull, bear) sweep.
                        (if ls_type sweep = Sell_side \<and> reversal sweep then bull + 15 else bull,
                         if ls_type sweep = Buy_side \<and> reversal sweep then bear + 15 else bear))
                     s2 (slice_last 3 sweeps);
          bullishScore = fst s3;
          bearishScore = snd s3;
          maxScore = 100
      in if bullishScore > bearishScore * (12 / 10) then
           (Long, min ((bullishScore / maxScore) * 100) 95)
         else if bearishScore > bullishScore * (12 / 10) then
           (Short, min ((bearishScore / maxScore) * 100) 95)
         else
           (Neutral, min ((max bullishScore bearishScore / maxScore) * 100) 50))"

text \<open>
  \<open>analyzeSMC\<close>. The two readings of the clock are parameters: \<open>utcHour\<close> (for the
  kill zones) and \<open>now\<close> (\<open>Date.now()\<close>).
\<close>

definition analyzeSMC :: "string \<Rightarrow> Candle list \<Rightarrow> nat \<Rightarrow> int \<Rightarrow> SMCAnalysis" where
  "analyzeSMC symb candles utcHour now =
     (let kzs = getActiveKillZones utcHour;
          active = find isActive kzs;
          gaps = detectFairValueGaps candles;
          blocks = detectOrderBlocks candles;
          sweeps = detectLiquiditySweeps candles;
          structure = determineMarketStructure candles;
          bc = determineBias structure blocks gaps sweeps
      in \<lparr>symbol = symb, timestamp = now, killZones = kzs, activeKillZone = active,
          fairValueGaps = gaps, orderBlocks = blocks, liquiditySweeps = sweeps,
          marketStructure = structure, bias = fst bc, confidenceScore = snd bc\<rparr>)"

datatype Action = Buy | Sell | Hold

text \<open>The value \<open>generateSMCSignal\<close> returns; its \<open>confidence\<close> is a rounded number.\<close>

record SMCSignal =
  sig_action :: Action
  sig_reason :: string
  sig_confidence :: int
  killZoneBonus :: bool

text \<open>A market structure inside a template string.\<close>

fun structure_text :: "market_structure \<Rightarrow> string" where
  "structure_text Bullish_structure = ''bullish''"
| "structure_text Bearish_structure = ''bearish''"
| "structure_text Ranging = ''ranging''"

text \<open>\<open>xs.slice(-1)[0]\<close>: the last element, \<open>undefined\<close> (\<open>None\<close>) on the empty array.\<close>

definition last_opt :: "'a list \<Rightarrow> 'a option" where
  "last_opt xs = (if xs = [] then None else Some (last xs))"

text \<open>
  \<open>generateSMCSignal\<close>. \<open>boosted_confidence\<close> is the local variable \<open>confidence\<close>
  after the kill-zone boost; \<open>Math.round\<close> is \<open>round\<close> (half up).
\<close>

definition boosted_confidence :: "SMCAnalysis \<Rightarrow> real" where
  "boosted_confidence analysis =
     (if activeKillZone analysis \<noteq> None
      then min (confidenceScore analysis * (12 / 10)) 95
      else confidenceScore analysis)"

definition generateSMCSignal :: "SMCAnalysis \<Rightarrow> SMCSignal" where
  "generateSMCSignal analysis =
     (let isInKillZone = (activeKillZone analysis \<noteq> None);
          confidence = boosted_confidence analysis;
          ms = structure_text (marketStructure analysis);
          (action, reason) =
            (if bias analysis = Long \<and> confidence \<ge> 60 then
               (let recentBullishOB =
                      last_opt (filter (\<lambda>ob. ob_type ob = Bullish \<and> \<not> tested ob)
                                       (orderBlocks analysis));
                    recentBullishFVG =
                      last_opt (filter (\<lambda>fvg. fvg_type fvg = Bullish \<and> \<not> filled fvg)
                                       (fairValueGaps analysis));
                    sellSideSweep =
                      last_opt (filter (\<lambda>s. ls_type s = Sell_side \<and> reversal s)
                                       (liquiditySweeps analysis))
                in if sellSideSweep \<noteq> None then
                     (Buy, ''Sell-side liquidity swept with reversal confirmation. Market structure is ''
                           @ ms @ ''.'')
                   else if recentBullishOB \<noteq> None \<and> recentBullishFVG \<noteq> None then
                     (Buy, ''Bullish order block and FVG confluence. Price expected to fill the gap.'')
                   else if recentBullishOB \<noteq> None then
                     (Buy, ''Untested bullish order block in '' @ ms @ '' market structure.'')
                   else (Hold, []))
             else if bias analysis = Short \<and> confidence \<ge> 60 then
               (let recentBearishOB =
                      last_opt (filter (\<lambda>ob. ob_type ob = Bearish \<and> \<not> tested ob)
                                       (orderBlocks analysis));
                    recentBearishFVG =
                      last_opt (filter (\<lambda>fvg. fvg_type fvg = Bearish \<and> \<not> filled fvg)
                                       (fairValueGaps analysis));
                    buySideSweep =
                      last_opt (filter (\<lambda>s. ls_type s = Buy_side \<and> reversal s)
                                       (liquiditySweeps analysis))
                in if buySideSweep \<noteq> None then
                     (Sell, ''Buy-side liquidity swept with reversal confirmation. Market structure is ''
                            @ ms @ ''.'')
                   else if recentBearishOB \<noteq> None \<and> recentBearishFVG \<noteq> None then
                     (Sell, ''Bearish order block and FVG confluence. Price expected to fill the gap.'')
                   else if recentBearishOB \<noteq> None then
                     (Sell, ''Untested bearish order block in '' @ ms @ '' market structure.'')
                   else (Hold, []))
             else (Hold, []));
          reason1 = (if action = Hold
                     then ''No clear SMC setup. Market structure is '' @ ms
                          @ ''. Waiting for confluence.''
                     else reason);
          confidence1 = (if action = Hold then min confidence 40 else confidence);
          reason2 = (if isInKillZone \<and> action \<noteq> Hold
                     then reason1 @ '' Active during ''
                          @ (case activeKillZone analysis of
                               Some kz \<Rightarrow> name kz | None \<Rightarrow> ''undefined'')
                          @ '' - higher probability setup.''
                     else reason1)
      in \<lparr>sig_action = action, sig_reason = reason2, sig_confidence = round confidence1,
          killZoneBonus = isInKillZone\<rparr>)"

section \<open>Backtest engine (unnamed/part_001, imported by the routes as \<open>./backtest\<close>)\<close>

subsection \<open>Indicators on a price array\<close>

text \<open>
  The indicator functions take \<open>number[]\<close>; \<open>calculateMACD\<close> passes a computed array
  to \<open>calculateEMA\<close>, so the arrays are \<open>num list\<close>. The periods of \<open>calculateSMA\<close>,
  \<open>calculateEMA\<close> and \<open>calculateMACD\<close> are whole numbers; the period of
  \<open>calculateRSI\<close> is any finite number, as the routes admit it (2.5 passes their check).
  An array read that can miss (\<open>prices[prices.length - 1]\<close> on the empty array) gives
  \<open>undefined\<close>, which is \<open>None\<close>; in arithmetic and in comparisons \<open>undefined\<close>
  behaves as \<open>NaN\<close>.
\<close>

definition at_opt :: "'a list \<Rightarrow> int \<Rightarrow> 'a option" where
  "at_opt xs i = (if 0 \<le> i \<and> i < int (length xs) then Some (xs ! nat i) else None)"

definition to_num :: "num option \<Rightarrow> num" where
  "to_num v = (case v of Some x \<Rightarrow> x | None \<Rightarrow> NaN)"

definition calculateSMA :: "num list \<Rightarrow> nat \<Rightarrow> num option" where
  "calculateSMA prices period =
     (if length prices < period then at_opt prices (int (length prices) - 1)
      else Some (sum_num (slice_last period prices) / Fin (real period)))"

definition calculateEMA :: "num list \<Rightarrow> nat \<Rightarrow> num option" where
  "calculateEMA prices period =
     (if length prices < period then at_opt prices (int (length prices) - 1)
      else
        let k = 2 / (real period + 1);
            ema0 = sum_num (take period prices) / Fin (real period)
        in Some (foldl (\<lambda>ema i. (prices ! i) * Fin k + ema * Fin (1 - k))
                       ema0 [period ..< length prices]))"

text \<open>
  \<open>xs[i]\<close> for a number \<open>i\<close>: the element at \<open>i\<close> when \<open>i\<close> is a whole number from 0
  to \<open>length - 1\<close>, and \<open>undefined\<close> otherwise.
\<close>

definition at_number :: "'a list \<Rightarrow> real \<Rightarrow> 'a option" where
  "at_number xs i =
     (if of_int \<lfloor>i\<rfloor> = i \<and> 0 \<le> i \<and> i < real (length xs) then Some (xs ! nat \<lfloor>i\<rfloor>)
      else None)"

text \<open>
  The loop of \<open>calculateRSI\<close>, from the value \<open>i\<close> of its counter on; the pair is
  (\<open>gains\<close>, \<open>losses\<close>). The counter starts at \<open>prices.length - period\<close>, which is not
  a whole number when the period is not, and goes up by 1 while it is below the length.
\<close>

function rsi_loop :: "num list \<Rightarrow> real \<Rightarrow> num \<times> num \<Rightarrow> num \<times> num" where
  "rsi_loop prices i (gains, losses) =
     (if i < real (length prices) then
        (let change = to_num (at_number prices i) - to_num (at_number prices (i - 1))
         in rsi_loop prices (i + 1)
              (if change > Fin 0 then (gains + change, losses)
               else (gains, losses + \<bar>change\<bar>)))
      else (gains, losses))"
  by pat_completeness auto
termination
proof (relation "measure (\<lambda>(prices, i, acc). nat \<lceil>real (length prices) - i\<rceil>)")
  show "wf (measure (\<lambda>(prices :: num list, i, acc :: num \<times> num). nat \<lceil>real (length prices) - i\<rceil>))"
    by simp
next
  fix prices :: "num list" and i :: real and gains losses x :: num
  assume "i < real (length prices)"
  then have "0 < \<lceil>real (length prices) - i\<rceil>"
    by simp
  moreover have "\<lceil>real (length prices) - (i + 1)\<rceil> = \<lceil>real (length prices) - i\<rceil> - 1"
    by (simp add: diff_diff_eq [symmetric])
  ultimately show "((prices, i + 1, if Fin 0 < x then (gains + x, losses) else (gains, losses + \<bar>x\<bar>)),
                    prices, i, gains, losses)
     \<in> measure (\<lambda>(prices, i, acc). nat \<lceil>real (length prices) - i\<rceil>)"
    by simp
qed

declare rsi_loop.simps [simp del]

definition calculateRSI :: "num list \<Rightarrow> real \<Rightarrow> num" where
  "calculateRSI prices period =
     (if real (length prices) < period + 1 then Fin 50
      else
        let gl = rsi_loop prices (real (length prices) - period) (Fin 0, Fin 0);
            avgGain = fst gl / Fin period;
            avgLoss = snd gl / Fin period
        in if strict_eq avgLoss (Fin 0) then Fin 100
           else let rs = avgGain / avgLoss
                in Fin 100 - Fin 100 / (Fin 1 + rs))"

record MACD =
  macd :: num
  signal :: num
  histogram :: num

text \<open>
  \<open>calculateMACD\<close>. The triple carried through the loop is (\<open>emaFastVal\<close>,
  \<open>emaSlowVal\<close>, \<open>macdLine\<close>).
\<close>

definition calculateMACD :: "num list \<Rightarrow> nat \<Rightarrow> nat \<Rightarrow> nat \<Rightarrow> MACD" where
  "calculateMACD prices fastPeriod slowPeriod signalPeriod =
     (if length prices < slowPeriod then \<lparr>macd = Fin 0, signal = Fin 0, histogram = Fin 0\<rparr>
      else
        let emaFast = to_num (calculateEMA prices fastPeriod);
            emaSlow = to_num (calculateEMA prices slowPeriod);
            m = emaFast - emaSlow;
            emaFastVal0 = sum_num (take fastPeriod prices) / Fin (real fastPeriod);
            emaSlowVal0 = sum_num (take slowPeriod prices) / Fin (real slowPeriod);
            kFast = 2 / (real fastPeriod + 1);
            kSlow = 2 / (real slowPeriod + 1);
            macdLine =
              snd (snd (foldl
                (\<lambda>(emaFastVal, emaSlowVal, line) i.
                   let emaFastVal1 =
                         (if i \<ge> fastPeriod
                          then (prices ! i) * Fin kFast + emaFastVal * Fin (1 - kFast)
                          else emaFastVal)
                   in if i \<ge> slowPeriod then
                        (let emaSlowVal1 = (prices ! i) * Fin kSlow + emaSlowVal * Fin (1 - kSlow)
                         in (emaFastVal1, emaSlowVal1, line @ [emaFastVal1 - emaSlowVal1]))
                      else (emaFastVal1, emaSlowVal, line))
                (emaFastVal0, emaSlowVal0, []) [0 ..< length prices]));
            s = (if length macdLine \<ge> signalPeriod
                 then to_num (calculateEMA macdLine signalPeriod) else Fin 0)
        in \<lparr>macd = m, signal = s, histogram = m - s\<rparr>)"

subsection \<open>The engine\<close>

text \<open>
  The strategy is one of the five of \<open>StrategyType\<close>, so the \<open>default\<close> branch of
  \<open>getSignal\<close> is not reached. In the records below a field whose name another record
  already has carries a prefix (\<open>bt_symbol\<close>, \<open>tr_type\<close>, ...).
\<close>

datatype StrategyType = Rsi | Macd | Sma | Combined | Smc

record BacktestConfig =
  strategy :: StrategyType
  bt_symbol :: string
  initialCapital :: real
  rsiPeriod :: real
  rsiBuyThreshold :: real
  rsiSellThreshold :: real
  macdFastPeriod :: nat
  macdSlowPeriod :: nat
  macdSignalPeriod :: nat
  smaPeriod :: nat
  stopLossPercent :: real
  takeProfitPercent :: real

text \<open>The constructor's argument: the optional fields may be absent.\<close>

record BacktestOptions =
  opt_rsiPeriod :: "real option"
  opt_rsiBuyThreshold :: "real option"
  opt_rsiSellThreshold :: "real option"
  opt_macdFastPeriod :: "nat option"
  opt_macdSlowPeriod :: "nat option"
  opt_macdSignalPeriod :: "nat option"
  opt_smaPeriod :: "nat option"
  opt_stopLossPercent :: "real option"
  opt_takeProfitPercent :: "real option"

definition or_default :: "'a option \<Rightarrow> 'a \<Rightarrow> 'a" where
  "or_default v d = (case v of Some x \<Rightarrow> x | None \<Rightarrow> d)"

definition BacktestEngine :: "StrategyType \<Rightarrow> string \<Rightarrow> real \<Rightarrow> BacktestOptions \<Rightarrow> BacktestConfig" where
  "BacktestEngine strat symb capital0 opts =
     \<lparr>strategy = strat, bt_symbol = symb, initialCapital = capital0,
      rsiPeriod = or_default (opt_rsiPeriod opts) 14,
      rsiBuyThreshold = or_default (opt_rsiBuyThreshold opts) 30,
      rsiSellThreshold = or_default (opt_rsiSellThreshold opts) 70,
      macdFastPeriod = or_default (opt_macdFastPeriod opts) 12,
      macdSlowPeriod = or_default (opt_macdSlowPeriod opts) 26,
      macdSignalPeriod = or_default (opt_macdSignalPeriod opts) 9,
      smaPeriod = or_default (opt_smaPeriod opts) 20,
      stopLossPercent = or_default (opt_stopLossPercent opts) 2,
      takeProfitPercent = or_default (opt_takeProfitPercent opts) 5\<rparr>"

definition getRSISignal :: "BacktestConfig \<Rightarrow> num list \<Rightarrow> Action" where
  "getRSISignal cfg prices =
     (let rsi = calculateRSI prices (rsiPeriod cfg)
      in if rsi < Fin (rsiBuyThreshold cfg) then Buy
         else if rsi > Fin (rsiSellThreshold cfg) then Sell
         else Hold)"

definition getMACDSignal :: "BacktestConfig \<Rightarrow> num list \<Rightarrow> Action" where
  "getMACDSignal cfg prices =
     (if length prices < macdSlowPeriod cfg + 2 then Hold
      else
        let current = calculateMACD prices (macdFastPeriod cfg) (macdSlowPeriod cfg)
                        (macdSignalPeriod cfg);
            previous = calculateMACD (butlast prices) (macdFastPeriod cfg) (macdSlowPeriod cfg)
                         (macdSignalPeriod cfg)
        in if histogram previous < Fin 0 \<and> histogram current > Fin 0 then Buy
           else if histogram previous > Fin 0 \<and> histogram current < Fin 0 then Sell
           else Hold)"

definition getSMASignal :: "BacktestConfig \<Rightarrow> num list \<Rightarrow> Action" where
  "getSMASignal cfg prices =
     (let currentPrice = to_num (at_opt prices (int (length prices) - 1));
          sma = to_num (calculateSMA prices (smaPeriod cfg));
          prevPrice = to_num (at_opt prices (int (length prices) - 2));
          prevSMA = to_num (calculateSMA (butlast prices) (smaPeriod cfg))
      in if prevPrice < prevSMA \<and> currentPrice > sma then Buy
         else if prevPrice > prevSMA \<and> currentPrice < sma then Sell
         else Hold)"

definition getCombinedSignal :: "BacktestConfig \<Rightarrow> num list \<Rightarrow> Action" where
  "getCombinedSignal cfg prices =
     (let signals = [getRSISignal cfg prices, getMACDSignal cfg prices, getSMASignal cfg prices];
          buyCount = length (filter (\<lambda>s. s = Buy) signals);
          sellCount = length (filter (\<lambda>s. s = Sell) signals)
      in if buyCount \<ge> 2 then Buy
         else if sellCount \<ge> 2 then Sell
         else Hold)"

text \<open>\<open>Math.max(...xs)\<close> and \<open>Math.min(...xs)\<close> on an array of finite numbers.\<close>

definition Math_max_list :: "real list \<Rightarrow> num" where
  "Math_max_list xs = foldl Math_max NInf (map Fin xs)"

definition Math_min_list :: "real list \<Rightarrow> num" where
  "Math_min_list xs = foldl Math_min PInf (map Fin xs)"

definition getSMCSignal :: "Candle list \<Rightarrow> Action" where
  "getSMCSignal candles =
     (if length candles < 20 then Hold
      else
        let recentCandles = slice_last 20 candles;
            highs = map high recentCandles;
            lows = map low recentCandles;
            currentHigh = highs ! (length highs - 1);
            currentLow = lows ! (length lows - 1);
            prevHigh = Math_max_list (butlast highs);
            prevLow = Math_min_list (butlast lows);
            currentClose = close (recentCandles ! (length recentCandles - 1));
            prevClose = close (recentCandles ! (length recentCandles - 2))
        in if Fin currentLow < prevLow \<and> currentClose > prevClose then Buy
           else if Fin currentHigh > prevHigh \<and> currentClose < prevClose then Sell
           else Hold)"

definition getSignal :: "BacktestConfig \<Rightarrow> num list \<Rightarrow> Candle list \<Rightarrow> Action" where
  "getSignal cfg prices candles =
     (case strategy cfg of
        Rsi \<Rightarrow> getRSISignal cfg prices
      | Macd \<Rightarrow> getMACDSignal cfg prices
      | Sma \<Rightarrow> getSMASignal cfg prices
      | Combined \<Rightarrow> getCombinedSignal cfg prices
      | Smc \<Rightarrow> getSMCSignal candles)"

fun strategyNames :: "StrategyType \<Rightarrow> string" where
  "strategyNames Rsi = ''RSI''"
| "strategyNames Macd = ''MACD''"
| "strategyNames Sma = ''SMA Crossover''"
| "strategyNames Combined = ''Combined Strategy''"
| "strategyNames Smc = ''Smart Money Concepts''"

definition getSignalReason :: "BacktestConfig \<Rightarrow> Action \<Rightarrow> string" where
  "getSignalReason cfg sig =
     strategyNames (strategy cfg) @ '' '' @ (if sig = Buy then ''Buy'' else ''Sell'') @ '' Signal''"

fun getStrategyDisplayName :: "StrategyType \<Rightarrow> string" where
  "getStrategyDisplayName Rsi = ''RSI Strategy''"
| "getStrategyDisplayName Macd = ''MACD Strategy''"
| "getStrategyDisplayName Sma = ''SMA Crossover''"
| "getStrategyDisplayName Combined = ''Combined Strategy''"
| "getStrategyDisplayName Smc = ''Smart Money Concepts''"

datatype trade_type = Buy_trade | Sell_trade

record BacktestTrade =
  tr_timestamp :: int
  tr_type :: trade_type
  tr_price :: real
  tr_quantity :: num
  tr_value :: num
  tr_pnl :: num
  tr_reason :: string

record EquityPoint =
  ep_timestamp :: int
  equity :: num
  drawdown :: num

record BacktestResult =
  strategyName :: string
  res_symbol :: string
  startDate :: int
  endDate :: int
  res_initialCapital :: real
  finalCapital :: num
  totalTrades :: nat
  winningTrades :: nat
  losingTrades :: nat
  winRate :: real
  profitFactor :: num
  res_maxDrawdown :: num
  sharpeRatio :: num
  totalReturn :: num
  totalReturnPercent :: num
  res_trades :: "BacktestTrade list"
  res_equityCurve :: "EquityPoint list"
  parameters :: BacktestConfig

text \<open>
  What the program throws: \<open>Error msg\<close> is \<open>throw new Error(msg)\<close>; \<open>TypeError\<close> is
  the read of a property of \<open>undefined\<close>.
\<close>

datatype error = Error string | TypeError

text \<open>The local variables of \<open>run\<close> that its loop changes.\<close>

record run_state =
  capital :: num
  position :: num
  entryPrice :: real
  maxEquity :: num
  maxDrawdown :: num
  trades :: "BacktestTrade list"
  equityCurve :: "EquityPoint list"

definition run_init :: "BacktestConfig \<Rightarrow> run_state" where
  "run_init cfg =
     \<lparr>capital = Fin (initialCapital cfg), position = Fin 0, entryPrice = 0,
      maxEquity = Fin (initialCapital cfg), maxDrawdown = Fin 0, trades = [],
      equityCurve = []\<rparr>"

text \<open>The three exits of a long position do the same, up to the reason of the trade.\<close>

definition sell_all :: "run_state \<Rightarrow> int \<Rightarrow> real \<Rightarrow> string \<Rightarrow> run_state" where
  "sell_all st currentTime currentPrice why =
     (let v = position st * Fin currentPrice;
          pnl = v - position st * Fin (entryPrice st)
      in st\<lparr>trades := trades st @
                 [\<lparr>tr_timestamp = currentTime, tr_type = Sell_trade, tr_price = currentPrice,
                   tr_quantity = position st, tr_value = v, tr_pnl = pnl, tr_reason = why\<rparr>],
             capital := v, position := Fin 0, entryPrice := 0\<rparr>)"

text \<open>The order part of one pass of the loop, at bar \<open>i\<close>.\<close>

definition trade_step :: "BacktestConfig \<Rightarrow> Candle list \<Rightarrow> run_state \<Rightarrow> nat \<Rightarrow> run_state" where
  "trade_step cfg candles st i =
     (let prices = map (\<lambda>c. Fin (close c)) candles;
          priceSlice = take (i + 1) prices;
          currentPrice = close (candles ! i);
          currentTime = time (candles ! i);
          sig = getSignal cfg priceSlice (take (i + 1) candles)
      in if position st > Fin 0 then
           (let pnlPercent =
                  (Fin (currentPrice - entryPrice st) / Fin (entryPrice st)) * Fin 100
            in if pnlPercent \<le> Fin (- stopLossPercent cfg) then
                 sell_all st currentTime currentPrice ''Stop Loss''
               else if pnlPercent \<ge> Fin (takeProfitPercent cfg) then
                 sell_all st currentTime currentPrice ''Take Profit''
               else if sig = Sell then
                 sell_all st currentTime currentPrice (getSignalReason cfg Sell)
               else st)
         else if sig = Buy \<and> capital st > Fin 0 then
           (let pos = capital st / Fin currentPrice
            in st\<lparr>position := pos, entryPrice := currentPrice,
                   trades := trades st @
                     [\<lparr>tr_timestamp = currentTime, tr_type = Buy_trade, tr_price = currentPrice,
                       tr_quantity = pos, tr_value = capital st, tr_pnl = Fin 0,
                       tr_reason = getSignalReason cfg Buy\<rparr>],
                   capital := Fin 0\<rparr>)
         else st)"

text \<open>The equity part of the pass, after the order part.\<close>

definition equity_step :: "Candle list \<Rightarrow> run_state \<Rightarrow> nat \<Rightarrow> run_state" where
  "equity_step candles st i =
     (let currentPrice = close (candles ! i);
          currentTime = time (candles ! i);
          currentEquity = capital st + position st * Fin currentPrice;
          maxEquity1 = Math_max (maxEquity st) currentEquity;
          dd = ((maxEquity1 - currentEquity) / maxEquity1) * Fin 100;
          st1 = st\<lparr>maxEquity := maxEquity1, maxDrawdown := Math_max (maxDrawdown st) dd\<rparr>
      in if i mod 5 = 0 \<or> i = length candles - 1
         then st1\<lparr>equityCurve := equityCurve st1 @
                     [\<lparr>ep_timestamp = currentTime, equity = currentEquity, drawdown = dd\<rparr>]\<rparr>
         else st1)"

definition run_step :: "BacktestConfig \<Rightarrow> Candle list \<Rightarrow> run_state \<Rightarrow> nat \<Rightarrow> run_state" where
  "run_step cfg candles st i = equity_step candles (trade_step cfg candles st i) i"

text \<open>
  The state of \<open>run\<close> after the first \<open>n\<close> passes of its loop, which starts at bar 30;
  the loop makes \<open>length candles - 30\<close> passes.
\<close>

definition run_loop :: "BacktestConfig \<Rightarrow> Candle list \<Rightarrow> nat \<Rightarrow> run_state" where
  "run_loop cfg candles n = foldl (run_step cfg candles) (run_init cfg) [30 ..< 30 + n]"

text \<open>The forced close after the loop (it leaves \<open>entryPrice\<close> as it is).\<close>

definition final_close :: "Candle list \<Rightarrow> run_state \<Rightarrow> run_state" where
  "final_close candles st =
     (if position st > Fin 0 then
        (let last_candle = candles ! (length candles - 1);
             st1 = sell_all st (time last_candle) (close last_candle) ''End of Backtest''
         in st1\<lparr>entryPrice := entryPrice st\<rparr>)
      else st)"

text \<open>
  \<open>returns\<close>: the relative change between consecutive points of the equity curve
  (the \<open>map\<close> followed by \<open>slice(1)\<close>). In \<open>run\<close>, \<open>Math.pow(x, 2)\<close> is \<open>x * x\<close>,
  and \<open>parameters\<close> holds the configuration, of which the source copies the strategy
  and the nine tunable fields.
\<close>

definition equity_returns :: "EquityPoint list \<Rightarrow> num list" where
  "equity_returns curve =
     map (\<lambda>i. (equity (curve ! i) - equity (curve ! (i - 1))) / equity (curve ! (i - 1)))
         [1 ..< length curve]"

definition run :: "BacktestConfig \<Rightarrow> Candle list \<Rightarrow> error + BacktestResult" where
  "run cfg candles =
     (if length candles < 50 then Inl (Error ''Need at least 50 candles for backtesting'')
      else
        let st = final_close candles (run_loop cfg candles (length candles - 30));
            sellTrades = filter (\<lambda>t. tr_type t = Sell_trade) (trades st);
            winning = filter (\<lambda>t. tr_pnl t > Fin 0) sellTrades;
            losing = filter (\<lambda>t. tr_pnl t \<le> Fin 0) sellTrades;
            totalProfit = sum_num (map tr_pnl winning);
            totalLoss = \<bar>sum_num (map tr_pnl losing)\<bar>;
            pf = (if totalLoss > Fin 0 then totalProfit / totalLoss
                  else if totalProfit > Fin 0 then PInf else Fin 0);
            returns = equity_returns (equityCurve st);
            n = Fin (real (length returns));
            avgReturn = (if length returns > 0 then sum_num returns / n else Fin 0);
            stdDev = (if length returns > 0
                      then Math_sqrt (sum_num (map (\<lambda>r. (r - avgReturn) * (r - avgReturn)) returns) / n)
                      else Fin 0);
            sharpe = (if stdDev > Fin 0 then (avgReturn / stdDev) * Fin (sqrt 252) else Fin 0);
            total = capital st - Fin (initialCapital cfg)
        in Inr \<lparr>strategyName = getStrategyDisplayName (strategy cfg),
                res_symbol = bt_symbol cfg,
                startDate = time (candles ! 0),
                endDate = time (candles ! (length candles - 1)),
                res_initialCapital = initialCapital cfg,
                finalCapital = capital st,
                totalTrades = length (trades st),
                winningTrades = length winning,
                losingTrades = length losing,
                winRate = (if length sellTrades > 0
                           then (real (length winning) / real (length sellTrades)) * 100 else 0),
                profitFactor = (if isFinite pf then pf else Fin 0),
                res_maxDrawdown = maxDrawdown st,
                sharpeRatio = sharpe,
                totalReturn = total,
                totalReturnPercent = (total / Fin (initialCapital cfg)) * Fin 100,
                res_trades = trades st,
                res_equityCurve = equityCurve st,
                parameters = cfg\<rparr>)"

definition runBacktest ::
  "Candle list \<Rightarrow> StrategyType \<Rightarrow> string \<Rightarrow> real \<Rightarrow> BacktestOptions \<Rightarrow> error + BacktestResult" where
  "runBacktest candles strat symb capital0 opts = run (BacktestEngine strat symb capital0 opts) candles"

section \<open>Reinforcement-learning agent (in server/email.ts, imported by the routes as \<open>./rl-agent\<close>)\<close>

subsection \<open>Indicators on a candle array\<close>

text \<open>
  The module has its own \<open>calculateRSI\<close> and \<open>calculateMACD\<close>, on candles; they are
  \<open>rl_calculateRSI\<close> and \<open>rl_calculateMACD\<close> here, and the local function \<open>ema\<close> of
  the latter is \<open>rl_ema\<close>.
\<close>

definition rl_calculateRSI :: "Candle list \<Rightarrow> nat \<Rightarrow> num" where
  "rl_calculateRSI candles period =
     (if length candles < period + 1 then Fin 50
      else
        let gl = foldl (\<lambda>(gains, losses) i.
                          let change = close (candles ! i) - close (candles ! (i - 1))
                          in if change > 0 then (gains + change, losses)
                             else (gains, losses + \<bar>change\<bar>))
                       (0, 0) [length candles - period ..< length candles];
            avgGain = Fin (fst gl) / Fin (real period);
            avgLoss = Fin (snd gl) / Fin (real period)
        in if strict_eq avgLoss (Fin 0) then Fin 100
           else let rs = avgGain / avgLoss
                in Fin 100 - Fin 100 / (Fin 1 + rs))"

definition rl_ema :: "num list \<Rightarrow> nat \<Rightarrow> num" where
  "rl_ema data period =
     (let k = 2 / (real period + 1);
          emaValue0 = sum_num (take period data) / Fin (real period)
      in foldl (\<lambda>emaValue i. (data ! i) * Fin k + emaValue * Fin (1 - k))
               emaValue0 [period ..< length data])"

definition rl_calculateMACD :: "Candle list \<Rightarrow> MACD" where
  "rl_calculateMACD candles =
     (if length candles < 26 then \<lparr>macd = Fin 0, signal = Fin 0, histogram = Fin 0\<rparr>
      else
        let closes = map (\<lambda>c. Fin (close c)) candles;
            ema12 = rl_ema closes 12;
            ema26 = rl_ema closes 26;
            m = ema12 - ema26;
            ema12Val0 = sum_num (take 12 closes) / Fin 12;
            ema26Val0 = sum_num (take 26 closes) / Fin 26;
            k12 = 2 / 13;
            k26 = 2 / 27;
            macdLine =
              snd (snd (foldl
                (\<lambda>(ema12Val, ema26Val, line) i.
                   let ema12Val1 =
                         (if i \<ge> 12 then (closes ! i) * Fin k12 + ema12Val * Fin (1 - k12)
                          else ema12Val)
                   in if i \<ge> 26 then
                        (let ema26Val1 = (closes ! i) * Fin k26 + ema26Val * Fin (1 - k26)
                         in (ema12Val1, ema26Val1, line @ [ema12Val1 - ema26Val1]))
                      else (ema12Val1, ema26Val, line))
                (ema12Val0, ema26Val0, []) [0 ..< length closes]));
            s = (if length macdLine \<ge> 9 then rl_ema macdLine 9 else Fin 0)
        in \<lparr>macd = m, signal = s, histogram = m - s\<rparr>)"

text \<open>
  \<open>calculateVolatility\<close> reads \<open>candles[i - 1].close\<close> from \<open>i = length - period\<close> on:
  with exactly \<open>period\<close> candles (and \<open>period > 0\<close>) the first read is of
  \<open>candles[-1]\<close>, which is \<open>undefined\<close>, and the function throws.
\<close>

definition calculateVolatility :: "Candle list \<Rightarrow> nat \<Rightarrow> error + num" where
  "calculateVolatility candles period =
     (if length candles < period then Inr (Fin 0)
      else if 0 < period \<and> length candles = period then Inl TypeError
      else
        let returns = map (\<lambda>i. Fin (close (candles ! i) - close (candles ! (i - 1)))
                                / Fin (close (candles ! (i - 1))))
                          [length candles - period ..< length candles];
            n = Fin (real (length returns));
            mean = sum_num returns / n;
            variance = sum_num (map (\<lambda>r. (r - mean) * (r - mean)) returns) / n
        in Inr (Math_sqrt variance * Fin 100))"

text \<open>
  \<open>calculateTrendStrength\<close> reads \<open>candles[candles.length - 1].close\<close>, which throws
  on the empty array (reached only with \<open>period = 0\<close>).
\<close>

definition calculateTrendStrength :: "Candle list \<Rightarrow> nat \<Rightarrow> error + num" where
  "calculateTrendStrength candles period =
     (if length candles < period then Inr (Fin 0)
      else if candles = [] then Inl TypeError
      else
        let recentCandles = slice_last period candles;
            sma = Fin (foldl (\<lambda>sum c. sum + close c) 0 recentCandles) / Fin (real period);
            currentPrice = Fin (close (candles ! (length candles - 1)))
        in Inr (((currentPrice - sma) / sma) * Fin 100))"

subsection \<open>The agent\<close>

record State =
  priceChange :: num
  rsi :: num
  macdSignal :: int
  volumeChange :: num
  trendStrength :: num
  volatility :: num

record Experience =
  ex_state :: State
  ex_action :: Action
  ex_reward :: num
  ex_nextState :: State
  ex_done :: bool

record QValues =
  buy :: num
  sell :: num
  hold :: num

type_synonym QTable = "(string, QValues) fmap"

record AgentConfig =
  learningRate :: real
  discountFactor :: real
  explorationRate :: real
  explorationDecay :: real
  minExploration :: real
  batchSize :: nat
  memorySize :: nat

text \<open>\<open>Partial<AgentConfig>\<close>: any of the fields may be absent.\<close>

record AgentOptions =
  opt_learningRate :: "real option"
  opt_discountFactor :: "real option"
  opt_explorationRate :: "real option"
  opt_explorationDecay :: "real option"
  opt_minExploration :: "real option"
  opt_batchSize :: "nat option"
  opt_memorySize :: "nat option"

record TrainingResult =
  episodeNumber :: nat
  ep_totalReward :: num
  totalActions :: nat
  buyActions :: nat
  sellActions :: nat
  holdActions :: nat
  startingCapital :: real
  endingCapital :: num
  profitLoss :: num
  profitLossPercent :: num
  ep_maxDrawdown :: num
  ep_winRate :: real
  ep_explorationRate :: real

record Prediction =
  pr_action :: Action
  pr_confidence :: num
  qValues :: QValues
  stateFeatures :: State

record Stats =
  st_totalEpisodes :: nat
  st_totalReward :: num
  avgReward :: num
  st_explorationRate :: real
  statesLearned :: nat

text \<open>The fields of an \<open>RLTradingAgent\<close>.\<close>

record RLTradingAgent =
  qTable :: QTable
  config :: AgentConfig
  replayMemory :: "Experience list"
  totalEpisodes :: nat
  totalReward :: num

text \<open>The constructor; \<open>None\<close> is an argument left out.\<close>

definition new_RLTradingAgent :: "AgentOptions option \<Rightarrow> QTable option \<Rightarrow> RLTradingAgent" where
  "new_RLTradingAgent cfg existingQTable =
     \<lparr>qTable = or_default existingQTable fmempty,
      config =
        \<lparr>learningRate = or_default (Option.bind cfg opt_learningRate) (1 / 1000),
         discountFactor = or_default (Option.bind cfg opt_discountFactor) (95 / 100),
         explorationRate = or_default (Option.bind cfg opt_explorationRate) (1 / 10),
         explorationDecay = or_default (Option.bind cfg opt_explorationDecay) (995 / 1000),
         minExploration = or_default (Option.bind cfg opt_minExploration) (1 / 100),
         batchSize = or_default (Option.bind cfg opt_batchSize) 32,
         memorySize = or_default (Option.bind cfg opt_memorySize) 10000\<rparr>,
      replayMemory = [], totalEpisodes = 0, totalReward = Fin 0\<rparr>"

text \<open>\<open>Math.max(lo, Math.min(hi, x))\<close>.\<close>

definition clamp :: "real \<Rightarrow> real \<Rightarrow> num \<Rightarrow> num" where
  "clamp lo hi x = Math_max (Fin lo) (Math_min (Fin hi) x)"

definition and_then :: "error + 'a \<Rightarrow> ('a \<Rightarrow> error + 'b) \<Rightarrow> error + 'b" where
  "and_then r f = (case r of Inl e \<Rightarrow> Inl e | Inr x \<Rightarrow> f x)"

definition extractState :: "Candle list \<Rightarrow> error + State" where
  "extractState candles =
     (if length candles < 27 then
        Inr \<lparr>priceChange = Fin 0, rsi = Fin 50, macdSignal = 0, volumeChange = Fin 0,
             trendStrength = Fin 0, volatility = Fin 0\<rparr>
      else
        let currentPrice = close (candles ! (length candles - 1));
            prevPrice = close (candles ! (length candles - 2));
            pc = (Fin (currentPrice - prevPrice) / Fin prevPrice) * Fin 100;
            r = rl_calculateRSI candles 14;
            m = rl_calculateMACD candles;
            ms = (if histogram m > Fin 0 then 1 else if histogram m < Fin 0 then - 1 else 0);
            currentVolume = volume (candles ! (length candles - 1));
            prevVolume = volume (candles ! (length candles - 2));
            vc = (if prevVolume > 0 then ((currentVolume - prevVolume) / prevVolume) * 100 else 0)
        in and_then (calculateTrendStrength candles 20) (\<lambda>ts.
           and_then (calculateVolatility candles 14) (\<lambda>vol.
             Inr \<lparr>priceChange = clamp (- 10) 10 pc, rsi = r, macdSignal = ms,
                  volumeChange = clamp (- 100) 100 (Fin vc),
                  trendStrength = clamp (- 10) 10 ts,
                  volatility = Math_min (Fin 10) vol\<rparr>)))"

text \<open>
  A number inside a template string. The numbers printed by \<open>discretizeState\<close> are
  whole (the results of \<open>Math.floor\<close>, or small integers) or not finite; a whole number
  prints as its decimal digits.
\<close>

fun digits :: "nat \<Rightarrow> string" where
  "digits n =
     (if n < 10 then [''0123456789'' ! n]
      else digits (n div 10) @ [''0123456789'' ! (n mod 10)])"

declare digits.simps [simp del]

definition int_text :: "int \<Rightarrow> string" where
  "int_text i = (if i < 0 then ''-'' @ digits (nat (- i)) else digits (nat i))"

fun num_text :: "num \<Rightarrow> string" where
  "num_text (Fin a) = int_text \<lfloor>a\<rfloor>"
| "num_text PInf = ''Infinity''"
| "num_text NInf = ''-Infinity''"
| "num_text NaN = ''NaN''"

definition discretizeState :: "State \<Rightarrow> string" where
  "discretizeState state =
     (let priceLevel = Math_floor (priceChange state / Fin 2);
          rsiLevel = Math_floor (rsi state / Fin 20);
          macdLevel = macdSignal state;
          volumeLevel = (if volumeChange state > Fin 50 then 2
                         else if volumeChange state > Fin (- 50) then 1 else 0);
          trendLevel = (if trendStrength state > Fin 2 then 2
                        else if trendStrength state > Fin (- 2) then 1 else 0);
          volLevel = (if volatility state > Fin 5 then 2
                      else if volatility state > Fin 2 then 1 else 0)
      in num_text priceLevel @ ''_'' @ num_text rsiLevel @ ''_'' @ int_text macdLevel @ ''_''
         @ int_text volumeLevel @ ''_'' @ int_text trendLevel @ ''_'' @ int_text volLevel)"

text \<open>
  \<open>getQValues\<close> creates the entry of a state key on its first lookup; it returns the
  entry and the agent after the call.
\<close>

definition getQValues :: "RLTradingAgent \<Rightarrow> string \<Rightarrow> QValues \<times> RLTradingAgent" where
  "getQValues agent stateKey =
     (case fmlookup (qTable agent) stateKey of
        Some q \<Rightarrow> (q, agent)
      | None \<Rightarrow>
          (let q0 = \<lparr>buy = Fin 0, sell = Fin 0, hold = Fin 0\<rparr>
           in (q0, agent\<lparr>qTable := fmupd stateKey q0 (qTable agent)\<rparr>)))"

text \<open>\<open>qValues[action]\<close>, read and written.\<close>

fun q_of :: "QValues \<Rightarrow> Action \<Rightarrow> num" where
  "q_of q Buy = buy q"
| "q_of q Sell = sell q"
| "q_of q Hold = hold q"

fun q_set :: "QValues \<Rightarrow> Action \<Rightarrow> num \<Rightarrow> QValues" where
  "q_set q Buy v = q\<lparr>buy := v\<rparr>"
| "q_set q Sell v = q\<lparr>sell := v\<rparr>"
| "q_set q Hold v = q\<lparr>hold := v\<rparr>"

text \<open>
  \<open>Math.random()\<close> returns a number of the interval from 0 (included) to 1 (excluded).
  The numbers it will return, in order, are a parameter \<open>rng\<close> of the functions that
  draw; such a function also takes the count \<open>k\<close> of the draws made before the call and
  returns the count after it.
\<close>

typedef unit_real = "{x::real. 0 \<le> x \<and> x < 1}"
  by (rule exI [of _ 0]) simp

type_synonym random = "nat \<Rightarrow> unit_real"

text \<open>The greedy choice at the end of \<open>selectAction\<close>.\<close>

definition greedy :: "QValues \<Rightarrow> Action" where
  "greedy q =
     (if buy q \<ge> sell q \<and> buy q \<ge> hold q then Buy
      else if sell q \<ge> buy q \<and> sell q \<ge> hold q then Sell
      else Hold)"

text \<open>
  \<open>selectAction\<close>. With \<open>explore\<close> false \<open>Math.random\<close> is not called. The index
  into the three \<open>actions\<close> is below 3, since the number drawn is below 1.
\<close>

definition selectAction ::
  "RLTradingAgent \<Rightarrow> State \<Rightarrow> bool \<Rightarrow> random \<Rightarrow> nat \<Rightarrow> Action \<times> RLTradingAgent \<times> nat" where
  "selectAction agent state explore rng k =
     (let stateKey = discretizeState state;
          (q, agent1) = getQValues agent stateKey
      in if explore then
           (if Rep_unit_real (rng k) < explorationRate (config agent) then
              ([Buy, Sell, Hold] ! nat \<lfloor>Rep_unit_real (rng (k + 1)) * 3\<rfloor>, agent1, k + 2)
            else (greedy q, agent1, k + 1))
         else (greedy q, agent1, k))"

text \<open>
  \<open>predict\<close>: what it returns or throws, the agent after the call (\<open>getQValues\<close> may
  have created an entry) and the count of draws after it. Its local \<open>maxQ\<close> is computed
  and never read; it is left out.
\<close>

definition predict ::
  "RLTradingAgent \<Rightarrow> Candle list \<Rightarrow> random \<Rightarrow> nat
     \<Rightarrow> (error + Prediction) \<times> RLTradingAgent \<times> nat" where
  "predict agent candles rng k =
     (case extractState candles of
        Inl e \<Rightarrow> (Inl e, agent, k)
      | Inr state \<Rightarrow>
          (let stateKey = discretizeState state;
               (q, agent1) = getQValues agent stateKey;
               (action, agent2, k1) = selectAction agent1 state False rng k;
               sumQ = \<bar>buy q\<bar> + \<bar>sell q\<bar> + \<bar>hold q\<bar>;
               confidence = (if sumQ > Fin 0 then \<bar>q_of q action\<bar> / sumQ else Fin (33 / 100))
           in (Inr \<lparr>pr_action = action, pr_confidence = confidence, qValues = q,
                    stateFeatures = state\<rparr>, agent2, k1)))"

text \<open>
  \<open>updateQValue\<close>. The entry written at the end is the one read first: creating the
  entry of the next state in between does not change it.
\<close>

definition updateQValue ::
  "RLTradingAgent \<Rightarrow> State \<Rightarrow> Action \<Rightarrow> num \<Rightarrow> State \<Rightarrow> RLTradingAgent" where
  "updateQValue agent state action reward nextState =
     (let stateKey = discretizeState state;
          nextStateKey = discretizeState nextState;
          (q, agent1) = getQValues agent stateKey;
          currentQ = q_of q action;
          (nextQValues, agent2) = getQValues agent1 nextStateKey;
          maxNextQ = Math_max (buy nextQValues) (Math_max (sell nextQValues) (hold nextQValues));
          newQ = currentQ
                 + Fin (learningRate (config agent))
                   * (reward + Fin (discountFactor (config agent)) * maxNextQ - currentQ)
      in agent2\<lparr>qTable := fmupd stateKey (q_set q action newQ) (qTable agent2)\<rparr>)"

definition addExperience :: "RLTradingAgent \<Rightarrow> Experience \<Rightarrow> RLTradingAgent" where
  "addExperience agent experience =
     (let mem = replayMemory agent @ [experience]
      in agent\<lparr>replayMemory := (if length mem > memorySize (config agent) then tl mem else mem)\<rparr>)"

text \<open>
  \<open>replayBatch\<close> first draws the whole batch, then updates with each element in turn.
  An index outside the memory would put \<open>undefined\<close> in the batch, and the update with it
  would throw, after the updates before it.
\<close>

fun replay_all :: "RLTradingAgent \<Rightarrow> Experience option list \<Rightarrow> error option \<times> RLTradingAgent" where
  "replay_all agent [] = (None, agent)"
| "replay_all agent (None # batch) = (Some TypeError, agent)"
| "replay_all agent (Some e # batch) =
     replay_all (updateQValue agent (ex_state e) (ex_action e) (ex_reward e) (ex_nextState e)) batch"

definition replayBatch ::
  "RLTradingAgent \<Rightarrow> random \<Rightarrow> nat \<Rightarrow> error option \<times> RLTradingAgent \<times> nat" where
  "replayBatch agent rng k =
     (let mem = replayMemory agent; n = batchSize (config agent)
      in if length mem < n then (None, agent, k)
         else
           let batch = map (\<lambda>j. at_opt mem \<lfloor>Rep_unit_real (rng (k + j)) * real (length mem)\<rfloor>)
                           [0 ..< n];
               (err, agent1) = replay_all agent batch
           in (err, agent1, k + n))"

text \<open>The local variables of \<open>train\<close> that its loop changes.\<close>

record train_locals =
  t_capital :: num
  t_position :: num
  t_entryPrice :: real
  t_totalReward :: num
  t_maxCapital :: num
  t_maxDrawdown :: num
  t_buyActions :: nat
  t_sellActions :: nat
  t_holdActions :: nat
  t_wins :: nat
  t_trades :: nat
  t_actions :: "(Action \<times> num) list"

definition train_init :: "real \<Rightarrow> train_locals" where
  "train_init initialCapital0 =
     \<lparr>t_capital = Fin initialCapital0, t_position = Fin 0, t_entryPrice = 0,
      t_totalReward = Fin 0, t_maxCapital = Fin initialCapital0, t_maxDrawdown = Fin 0,
      t_buyActions = 0, t_sellActions = 0, t_holdActions = 0, t_wins = 0, t_trades = 0,
      t_actions = []\<rparr>"

text \<open>
  The \<open>switch\<close> of the loop: the locals after it and the reward. In the \<open>sell\<close> case the
  reward is computed after \<open>position\<close> and \<open>entryPrice\<close> are set to 0, as in the source.
\<close>

fun act :: "train_locals \<Rightarrow> Action \<Rightarrow> real \<Rightarrow> real \<Rightarrow> train_locals \<times> num" where
  "act l Buy currentPrice nextPrice =
     (let l1 = l\<lparr>t_buyActions := t_buyActions l + 1\<rparr>;
          l2 = (if strict_eq (t_position l1) (Fin 0)
                then l1\<lparr>t_position := t_capital l1 / Fin currentPrice,
                        t_entryPrice := currentPrice, t_capital := Fin 0\<rparr>
                else l1)
      in (l2, if t_position l2 > Fin 0
              then (Fin (nextPrice - currentPrice) / Fin currentPrice) * Fin 100
              else Fin 0))"
| "act l Sell currentPrice nextPrice =
     (let l1 = l\<lparr>t_sellActions := t_sellActions l + 1\<rparr>
      in if t_position l1 > Fin 0 then
           (let exitValue = t_position l1 * Fin currentPrice;
                tradeProfit = exitValue - t_position l1 * Fin (t_entryPrice l1);
                l2 = l1\<lparr>t_capital := exitValue,
                        t_wins := (if tradeProfit > Fin 0 then t_wins l1 + 1 else t_wins l1),
                        t_trades := t_trades l1 + 1,
                        t_position := Fin 0, t_entryPrice := 0\<rparr>
            in (l2, (tradeProfit / (if t_position l2 > Fin 0
                                    then t_position l2 * Fin (t_entryPrice l2)
                                    else t_capital l2)) * Fin 100))
         else (l1, Fin (- (1 / 10))))"
| "act l Hold currentPrice nextPrice =
     (let l1 = l\<lparr>t_holdActions := t_holdActions l + 1\<rparr>
      in (l1, if t_position l1 > Fin 0
              then (Fin (nextPrice - currentPrice) / Fin currentPrice) * Fin 50
              else Fin (- (5 / 100))))"

text \<open>The bookkeeping of the loop after the \<open>switch\<close>.\<close>

definition account :: "train_locals \<Rightarrow> Action \<Rightarrow> num \<Rightarrow> real \<Rightarrow> train_locals" where
  "account l action reward currentPrice =
     (let currentValue = t_capital l + t_position l * Fin currentPrice;
          maxCapital1 = Math_max (t_maxCapital l) currentValue;
          dd = ((maxCapital1 - currentValue) / maxCapital1) * Fin 100
      in l\<lparr>t_maxCapital := maxCapital1, t_maxDrawdown := Math_max (t_maxDrawdown l) dd,
            t_totalReward := t_totalReward l + reward,
            t_actions := t_actions l @ [(action, reward)]\<rparr>)"

text \<open>\<open>xs.slice(a, b)\<close> for \<open>0 \<le> a \<le> b\<close>.\<close>

definition slice :: "nat \<Rightarrow> nat \<Rightarrow> 'a list \<Rightarrow> 'a list" where
  "slice a b xs = take (b - a) (drop a xs)"

text \<open>
  One pass of the loop of \<open>train\<close>, at bar \<open>i\<close>, on the locals, the agent and the count
  of draws. When a call inside it throws, the pass ends there: \<open>Inl\<close> carries what
  was thrown with the agent and the count at that point.
\<close>

definition train_step ::
  "Candle list \<Rightarrow> random \<Rightarrow> train_locals \<times> RLTradingAgent \<times> nat \<Rightarrow> nat
     \<Rightarrow> (error \<times> RLTradingAgent \<times> nat) + (train_locals \<times> RLTradingAgent \<times> nat)" where
  "train_step candles rng s i =
     (let (l, agent, k) = s;
          windowSize = 30
      in case extractState (slice (i - windowSize) (i + 1) candles) of
           Inl e \<Rightarrow> Inl (e, agent, k)
         | Inr state \<Rightarrow>
             (let (action, agent1, k1) = selectAction agent state True rng k;
                  currentPrice = close (candles ! i);
                  nextPrice = close (candles ! (i + 1));
                  (l1, reward) = act l action currentPrice nextPrice;
                  l2 = account l1 action reward currentPrice
              in case extractState (slice (i - windowSize + 1) (i + 2) candles) of
                   Inl e \<Rightarrow> Inl (e, agent1, k1)
                 | Inr nextState \<Rightarrow>
                     (let agent2 = addExperience agent1
                            \<lparr>ex_state = state, ex_action = action, ex_reward = reward,
                             ex_nextState = nextState, ex_done = (i = length candles - 2)\<rparr>
                      in if length (replayMemory agent2) \<ge> batchSize (config agent2) then
                           (case replayBatch agent2 rng k1 of
                              (Some e, agent3, k3) \<Rightarrow> Inl (e, agent3, k3)
                            | (None, agent3, k3) \<Rightarrow> Inr (l2, agent3, k3))
                         else Inr (l2, agent2, k1))))"

text \<open>The passes at the bars of \<open>is\<close>, in order, up to the first that throws.\<close>

fun train_loop ::
  "Candle list \<Rightarrow> random \<Rightarrow> nat list \<Rightarrow> train_locals \<times> RLTradingAgent \<times> nat
     \<Rightarrow> (error \<times> RLTradingAgent \<times> nat) + (train_locals \<times> RLTradingAgent \<times> nat)" where
  "train_loop candles rng [] s = Inr s"
| "train_loop candles rng (i # is) s =
     (case train_step candles rng s i of
        Inl e \<Rightarrow> Inl e
      | Inr s1 \<Rightarrow> train_loop candles rng is s1)"

text \<open>
  \<open>train\<close>: what it returns or throws, the agent after the call and the count of draws
  after it. The loop runs over the bars from 30 to \<open>length candles - 2\<close>. The product
  \<open>explorationRate * explorationDecay\<close> is a double: \<open>fl\<close>, a parameter, is the rounding
  that takes the exact product to it.
\<close>

definition train ::
  "(real \<Rightarrow> real) \<Rightarrow> RLTradingAgent \<Rightarrow> Candle list \<Rightarrow> real \<Rightarrow> random \<Rightarrow> nat
     \<Rightarrow> (error + TrainingResult) \<times> RLTradingAgent \<times> nat" where
  "train fl agent candles initialCapital0 rng k =
     (if length candles < 50 then (Inl (Error ''Need at least 50 candles for training''), agent, k)
      else
        case train_loop candles rng [30 ..< length candles - 1] (train_init initialCapital0, agent, k) of
          Inl (e, agent1, k1) \<Rightarrow> (Inl e, agent1, k1)
        | Inr (l, agent1, k1) \<Rightarrow>
            (let l1 = (if t_position l > Fin 0
                       then l\<lparr>t_capital := t_position l * Fin (close (candles ! (length candles - 1))),
                              t_position := Fin 0\<rparr>
                       else l);
                 cfg = config agent1;
                 cfg1 = cfg\<lparr>explorationRate :=
                              max (minExploration cfg)
                                  (fl (explorationRate cfg * explorationDecay cfg))\<rparr>;
                 agent2 = agent1\<lparr>config := cfg1, totalEpisodes := totalEpisodes agent1 + 1,
                                 totalReward := totalReward agent1 + t_totalReward l1\<rparr>;
                 pl = t_capital l1 - Fin initialCapital0
             in (Inr \<lparr>episodeNumber = totalEpisodes agent2,
                       ep_totalReward = t_totalReward l1,
                       totalActions = t_buyActions l1 + t_sellActions l1 + t_holdActions l1,
                       buyActions = t_buyActions l1,
                       sellActions = t_sellActions l1,
                       holdActions = t_holdActions l1,
                       startingCapital = initialCapital0,
                       endingCapital = t_capital l1,
                       profitLoss = pl,
                       profitLossPercent = (pl / Fin initialCapital0) * Fin 100,
                       ep_maxDrawdown = t_maxDrawdown l1,
                       ep_winRate = (if t_trades l1 > 0
                                     then (real (t_wins l1) / real (t_trades l1)) * 100 else 0),
                       ep_explorationRate = explorationRate cfg1\<rparr>,
                 agent2, k1)))"

definition getStats :: "RLTradingAgent \<Rightarrow> Stats" where
  "getStats agent =
     \<lparr>st_totalEpisodes = totalEpisodes agent,
      st_totalReward = totalReward agent,
      avgReward = (if totalEpisodes agent > 0
                   then totalReward agent / Fin (real (totalEpisodes agent)) else Fin 0),
      st_explorationRate = explorationRate (config agent),
      statesLearned = fcard (fmdom (qTable agent))\<rparr>"

text \<open>\<open>setConfig\<close>: \<open>Object.assign\<close> overwrites the fields that are present.\<close>

definition setConfig :: "RLTradingAgent \<Rightarrow> AgentOptions \<Rightarrow> RLTradingAgent" where
  "setConfig agent opts =
     (let c = config agent
      in agent\<lparr>config :=
           \<lparr>learningRate = or_default (opt_learningRate opts) (learningRate c),
            discountFactor = or_default (opt_discountFactor opts) (discountFactor c),
            explorationRate = or_default (opt_explorationRate opts) (explorationRate c),
            explorationDecay = or_default (opt_explorationDecay opts) (explorationDecay c),
            minExploration = or_default (opt_minExploration opts) (minExploration c),
            batchSize = or_default (opt_batchSize opts) (batchSize c),
            memorySize = or_default (opt_memorySize opts) (memorySize c)\<rparr>\<rparr>)"

definition loadQTable :: "RLTradingAgent \<Rightarrow> QTable \<Rightarrow> RLTradingAgent" where
  "loadQTable agent table = agent\<lparr>qTable := table\<rparr>"

definition reset :: "RLTradingAgent \<Rightarrow> RLTradingAgent" where
  "reset agent =
     agent\<lparr>qTable := fmempty, replayMemory := [], totalEpisodes := 0, totalReward := Fin 0,
           config := (config agent)\<lparr>explorationRate := 1 / 10\<rparr>\<rparr>"

section \<open>Hypotheses and inputs of the properties\<close>

text \<open>
  The properties below speak of series that rise and of concrete inputs; both are fixed
  here, before the properties.
\<close>

subsection \<open>Rising candle series\<close>

text \<open>
  A strictly monotonically rising candle series: each of the four prices of a candle is
  above the same price of the candle before.
\<close>

fun rising :: "Candle list \<Rightarrow> bool" where
  "rising (c1 # c2 # cs) =
     (open' c1 < open' c2 \<and> high c1 < high c2 \<and> low c1 < low c2 \<and> close c1 < close c2 \<and>
      rising (c2 # cs))"
| "rising cs = True"

text \<open>
  No retracement greater than 0.1% of the close: a candle trades back below the high of
  the candle before it by at most 0.1% of its close.
\<close>

fun no_retracement :: "Candle list \<Rightarrow> bool" where
  "no_retracement (c1 # c2 # cs) =
     (high c1 - low c2 \<le> close c2 * (1 / 1000) \<and> no_retracement (c2 # cs))"
| "no_retracement cs = True"

text \<open>A candle whose low is not above its high and whose close is positive.\<close>

definition well_formed :: "Candle \<Rightarrow> bool" where
  "well_formed c = (low c \<le> high c \<and> 0 < close c)"

text \<open>
  No advance greater than 0.1% of the close: the low of a candle is above the high of the
  candle two bars before it by at most 0.1% of the close of the candle between them.
\<close>

fun bounded_advance :: "Candle list \<Rightarrow> bool" where
  "bounded_advance (c1 # c2 # c3 # cs) =
     (low c3 - high c1 \<le> close c2 * (1 / 1000) \<and> bounded_advance (c2 # c3 # cs))"
| "bounded_advance cs = True"

subsection \<open>Concrete inputs\<close>

text \<open>A candle that opens, trades and closes at one price.\<close>

definition flat_candle :: "int \<Rightarrow> real \<Rightarrow> Candle" where
  "flat_candle t p = \<lparr>time = t, open' = p, high = p, low = p, close = p, volume = 1\<rparr>"

text \<open>Three candles, each 10% above the one before.\<close>

definition gapping_series :: "Candle list" where
  "gapping_series = [flat_candle 0 100, flat_candle 1 110, flat_candle 2 121]"

text \<open>Three overlapping candles, each one unit above the one before.\<close>

definition stepping_series :: "Candle list" where
  "stepping_series =
     [\<lparr>time = 0, open' = 100, high = 103, low = 100, close = 101, volume = 1\<rparr>,
      \<lparr>time = 1, open' = 101, high = 104, low = 101, close = 102, volume = 1\<rparr>,
      \<lparr>time = 2, open' = 102, high = 105, low = 102, close = 103, volume = 1\<rparr>,
      \<lparr>time = 3, open' = 103, high = 106, low = 103, close = 104, volume = 1\<rparr>]"

text \<open>The options of an agent that starts with the exploration rate 0.3.\<close>

definition options_rate_03 :: AgentOptions where
  "options_rate_03 =
     \<lparr>opt_learningRate = None, opt_discountFactor = None, opt_explorationRate = Some (3 / 10),
      opt_explorationDecay = None, opt_minExploration = None, opt_batchSize = None,
      opt_memorySize = None\<rparr>"

text \<open>A random source that returns 0 at every draw.\<close>

definition rng0 :: random where
  "rng0 = (\<lambda>k. Abs_unit_real 0)"

text \<open>
  Two analyses: a long bias of confidence 70 inside the London session with a confirmed
  sell-side sweep, and a neutral one of confidence 45 with no artifact.
\<close>

definition london :: KillZone where
  "london = \<lparr>name = ''London Session'', startHour = 8, endHour = 12, isActive = True,
     description = ''High volatility, major moves initiate here''\<rparr>"

definition analysis_long :: SMCAnalysis where
  "analysis_long =
     \<lparr>symbol = ''BTCUSDT'', timestamp = 0, killZones = [london], activeKillZone = Some london,
      fairValueGaps = [], orderBlocks = [],
      liquiditySweeps = [\<lparr>ls_type = Sell_side, level = 100, sweptAt = 0,
                           priceAfterSweep = 101, reversal = True\<rparr>],
      marketStructure = Bullish_structure, bias = Long, confidenceScore = 70\<rparr>"

definition analysis_neutral :: SMCAnalysis where
  "analysis_neutral =
     \<lparr>symbol = ''BTCUSDT'', timestamp = 0, killZones = [], activeKillZone = None,
      fairValueGaps = [], orderBlocks = [], liquiditySweeps = [],
      marketStructure = Ranging, bias = Neutral, confidenceScore = 45\<rparr>"

text \<open>
  Fifty candles: forty-nine that open and close at 100 between 99 and 101, then one that
  dips to 98 and closes at 100.5.
\<close>

definition quiet_candle :: "int \<Rightarrow> Candle" where
  "quiet_candle t = \<lparr>time = t, open' = 100, high = 101, low = 99, close = 100, volume = 1\<rparr>"

definition dip_candle :: Candle where
  "dip_candle = \<lparr>time = 49, open' = 100, high = 101, low = 98, close = 201 / 2, volume = 1\<rparr>"

definition dip_series :: "Candle list" where
  "dip_series = map (\<lambda>i. quiet_candle (int i)) [0 ..< 49] @ [dip_candle]"

text \<open>Fifty flat candles at the prices -1, -2, ..., -50.\<close>

definition falling_series :: "Candle list" where
  "falling_series = map (\<lambda>i. flat_candle (int i) (- 1 - real i)) [0 ..< 50]"

text \<open>Engines built with the default parameters, on a capital of 10000.\<close>

definition no_options :: BacktestOptions where
  "no_options = \<lparr>opt_rsiPeriod = None, opt_rsiBuyThreshold = None, opt_rsiSellThreshold = None,
     opt_macdFastPeriod = None, opt_macdSlowPeriod = None, opt_macdSignalPeriod = None,
     opt_smaPeriod = None, opt_stopLossPercent = None, opt_takeProfitPercent = None\<rparr>"

definition smc_engine :: BacktestConfig where
  "smc_engine = BacktestEngine Smc ''BTCUSDT'' 10000 no_options"

definition rsi_engine :: BacktestConfig where
  "rsi_engine = BacktestEngine Rsi ''BTCUSDT'' 10000 no_options"

text \<open>
  The options of an agent that starts with the exploration rate -4, the floor -1 and the
  decay factor 1/2.
\<close>

definition options_negative :: AgentOptions where
  "options_negative =
     \<lparr>opt_learningRate = None, opt_discountFactor = None, opt_explorationRate = Some (- 4),
      opt_explorationDecay = Some (1 / 2), opt_minExploration = Some (- 1), opt_batchSize = None,
      opt_memorySize = None\<rparr>"

subsection \<open>Training episodes in a row\<close>

text \<open>
  \<open>episodes\<close> calls \<open>train\<close> once for each pair of a candle series and an initial
  capital, in order, on the agent the call before has left, and stops at the first call
  that throws; \<open>None\<close> says that every call returned.
\<close>

fun episodes ::
  "(real \<Rightarrow> real) \<Rightarrow> RLTradingAgent \<Rightarrow> (Candle list \<times> real) list \<Rightarrow> random \<Rightarrow> nat
     \<Rightarrow> error option \<times> RLTradingAgent \<times> nat" where
  "episodes fl agent [] rng k = (None, agent, k)"
| "episodes fl agent ((candles, capital0) # rest) rng k =
     (case train fl agent candles capital0 rng k of
        (Inl e, agent1, k1) \<Rightarrow> (Some e, agent1, k1)
      | (Inr r, agent1, k1) \<Rightarrow> episodes fl agent1 rest rng k1)"

definition two_episodes :: "(Candle list \<times> real) list" where
  "two_episodes = [(dip_series, 10000), (dip_series, 10000)]"

text \<open>The configuration after the decay that ends an episode.\<close>

definition decayed :: "(real \<Rightarrow> real) \<Rightarrow> AgentConfig \<Rightarrow> AgentConfig" where
  "decayed fl cfg =
     cfg\<lparr>explorationRate :=
           max (minExploration cfg) (fl (explorationRate cfg * explorationDecay cfg))\<rparr>"

subsection \<open>Rounding\<close>

text \<open>
  \<open>rounded_within u fl cfg n\<close>: each of the products that \<open>n\<close> episodes in a row form
  from the configuration \<open>cfg\<close> to decay the exploration rate is rounded by \<open>fl\<close> with a
  relative error of at most \<open>u\<close>. The multiplication of doubles does so with \<open>u = 2^-53\<close>
  wherever the product is neither subnormal nor out of range; exact arithmetic does so
  with \<open>u = 0\<close>.
\<close>

definition rounded_within :: "real \<Rightarrow> (real \<Rightarrow> real) \<Rightarrow> AgentConfig \<Rightarrow> nat \<Rightarrow> bool" where
  "rounded_within u fl cfg n =
     list_all (\<lambda>i. let x = explorationRate ((decayed fl ^^ i) cfg) * explorationDecay cfg
                    in \<bar>fl x - x\<bar> \<le> u * \<bar>x\<bar>)
              [0 ..< n]"

text \<open>No rounding, and a rounding that is always off by the factor \<open>1 + 2^-53\<close>.\<close>

definition exact :: "real \<Rightarrow> real" where
  "exact x = x"

definition round_up :: "real \<Rightarrow> real" where
  "round_up x = x + x / 2 ^ 53"

subsection \<open>The simulation loops seen from capital and position\<close>

text \<open>The locals of \<open>train\<close> after a pass of its loop in which the action is \<open>a\<close>.\<close>

definition pass :: "train_locals \<Rightarrow> Action \<Rightarrow> real \<Rightarrow> real \<Rightarrow> train_locals" where
  "pass l a currentPrice nextPrice =
     account (fst (act l a currentPrice nextPrice)) a (snd (act l a currentPrice nextPrice))
       currentPrice"

text \<open>
  Capital and position are finite, the position is not negative, and there is no capital
  beside a position; in \<open>train\<close> the capital is not negative either.
\<close>

definition run_inv :: "run_state \<Rightarrow> bool" where
  "run_inv st \<longleftrightarrow>
     (\<exists>c p. capital st = Fin c \<and> position st = Fin p \<and> 0 \<le> p \<and> (0 < p \<longrightarrow> c = 0))"

definition train_inv :: "train_locals \<Rightarrow> bool" where
  "train_inv l \<longleftrightarrow>
     (\<exists>c p. t_capital l = Fin c \<and> t_position l = Fin p \<and> 0 \<le> c \<and> 0 \<le> p \<and> (0 < p \<longrightarrow> c = 0))"

section \<open>Arithmetic on \<open>num\<close>\<close>

lemmas num_ops =
  plus_num_def minus_num_def uminus_num_def times_num_def divide_num_def abs_num_def
  less_num_def less_eq_num_def

lemma Fin_plus [simp]: "Fin a + Fin b = Fin (a + b)"
  by (simp add: plus_num_def)

lemma Fin_minus [simp]: "Fin a - Fin b = Fin (a - b)"
  by (simp add: minus_num_def)

lemma Fin_times [simp]: "Fin a * Fin b = Fin (a * b)"
  by (simp add: times_num_def)

lemma Fin_divide [simp]: "b \<noteq> 0 \<Longrightarrow> Fin a / Fin b = Fin (a / b)"
  by (simp add: divide_num_def)

lemma Fin_less [simp]: "Fin a < Fin b \<longleftrightarrow> a < b"
  by (simp add: less_num_def)

lemma Fin_less_eq [simp]: "Fin a \<le> Fin b \<longleftrightarrow> a \<le> b"
  by (simp add: less_eq_num_def)

lemma Fin_abs [simp]: "\<bar>Fin a\<bar> = Fin \<bar>a\<bar>"
  by (simp add: abs_num_def)

lemma Math_max_Fin [simp]: "Math_max (Fin a) (Fin b) = Fin (max a b)"
  by (simp add: Math_max_def max_def)

lemma Math_min_Fin [simp]: "Math_min (Fin a) (Fin b) = Fin (min a b)"
  by (simp add: Math_min_def min_def)

lemma strict_eq_Fin [simp]: "strict_eq (Fin a) (Fin b) \<longleftrightarrow> a = b"
  by (simp add: strict_eq_def)

lemma sum_num_Nil [simp]: "sum_num [] = Fin 0"
  by (simp add: sum_num_def)

section \<open>Indicator fallbacks\<close>

lemma at_opt_last: "at_opt xs (int (length xs) - 1) = last_opt xs"
  by (cases "xs = []") (simp_all add: at_opt_def last_opt_def last_conv_nth nat_diff_distrib')

text \<open>
  C5. On a price array shorter than the period each indicator of the backtest engine
  returns its fallback: \<open>calculateRSI\<close> returns 50 on fewer than \<open>period + 1\<close> prices,
  \<open>calculateMACD\<close> returns the all-zero record on fewer than \<open>slowPeriod\<close> prices, and
  \<open>calculateSMA\<close> and \<open>calculateEMA\<close> return \<open>prices[prices.length - 1]\<close>, the last
  price (on the empty array that read gives \<open>undefined\<close>). None of the four can throw:
  their results carry no error.
\<close>

theorem indicator_fallbacks:
  "(length prices < period + 1 \<longrightarrow> calculateRSI prices (real period) = Fin 50) \<and>
   (length prices < slowPeriod \<longrightarrow>
      calculateMACD prices fastPeriod slowPeriod signalPeriod =
        \<lparr>macd = Fin 0, signal = Fin 0, histogram = Fin 0\<rparr>) \<and>
   (length prices < period \<longrightarrow>
      calculateSMA prices period = last_opt prices \<and>
      calculateEMA prices period = last_opt prices)"
  by (simp add: calculateRSI_def calculateMACD_def calculateSMA_def calculateEMA_def at_opt_last)

theorem indicator_fallbacks_witness:
  "length [Fin 3, Fin 4] < 14 + 1 \<and> calculateRSI [Fin 3, Fin 4] 14 = Fin 50 \<and>
   length [Fin 3, Fin 4] < 26 \<and>
   calculateMACD [Fin 3, Fin 4] 12 26 9 = \<lparr>macd = Fin 0, signal = Fin 0, histogram = Fin 0\<rparr> \<and>
   length [Fin 3, Fin 4] < 14 \<and>
   calculateSMA [Fin 3, Fin 4] 14 = Some (Fin 4) \<and>
   calculateEMA [Fin 3, Fin 4] 14 = Some (Fin 4)"
  using indicator_fallbacks [of "[Fin 3, Fin 4]" 14 26 12 9]
  by (simp add: last_opt_def)

section \<open>RSI without losses\<close>

lemma at_number_nat: "i < length xs \<Longrightarrow> at_number xs (real i) = Some (xs ! i)"
  by (simp add: at_number_def)

lemma rsi_loop_nonneg:
  assumes "\<forall>i. i0 \<le> i \<and> i < length prices \<longrightarrow> prices ! (i - 1) \<le> prices ! i"
    and "0 < i0"
  shows "\<exists>g. rsi_loop (map Fin prices) (real i0) (Fin g0, Fin 0) = (Fin g, Fin 0)"
  using assms
proof (induction "length prices - i0" arbitrary: i0 g0)
  case 0
  then have "\<not> real i0 < real (length (map Fin prices))"
    by simp
  then show ?case
    by (subst rsi_loop.simps) simp
next
  case (Suc n)
  then have lt: "i0 < length prices" and le: "prices ! (i0 - 1) \<le> prices ! i0"
    by simp_all
  from lt Suc.prems(2) have r0: "at_number (map Fin prices) (real i0) = Some (Fin (prices ! i0))"
    and r1: "at_number (map Fin prices) (real i0 - 1) = Some (Fin (prices ! (i0 - 1)))"
    using at_number_nat [of i0 "map Fin prices"] at_number_nat [of "i0 - 1" "map Fin prices"]
    by (simp_all add: of_nat_diff)
  have next_i: "real i0 + 1 = real (Suc i0)"
    by simp
  have ih: "\<exists>g. rsi_loop (map Fin prices) (real (Suc i0)) (Fin g1, Fin 0) = (Fin g, Fin 0)" for g1
  proof (rule Suc.hyps(1))
    show "n = length prices - Suc i0"
      using Suc.hyps(2) by simp
    show "\<forall>i. Suc i0 \<le> i \<and> i < length prices \<longrightarrow> prices ! (i - 1) \<le> prices ! i"
      using Suc.prems(1) by simp
    show "0 < Suc i0"
      by simp
  qed
  show ?case
  proof (cases "prices ! (i0 - 1) < prices ! i0")
    case True
    with lt ih [of "g0 + (prices ! i0 - prices ! (i0 - 1))"] show ?thesis
      by (subst rsi_loop.simps) (simp add: r0 r1 next_i to_num_def del: of_nat_Suc)
  next
    case False
    with le have "prices ! (i0 - 1) = prices ! i0"
      by simp
    with lt ih [of g0] show ?thesis
      by (subst rsi_loop.simps) (simp add: r0 r1 next_i to_num_def del: of_nat_Suc)
  qed
qed

lemma calculateRSI_100:
  assumes "0 < period" and "period + 1 \<le> length prices"
    and "\<forall>i \<in> {length prices - period ..< length prices}. prices ! (i - 1) \<le> prices ! i"
  shows "calculateRSI (map Fin prices) (real period) = Fin 100"
proof -
  have start: "real (length (map Fin prices)) - real period = real (length prices - period)"
    using assms(2) by (simp add: of_nat_diff)
  have "\<forall>i. length prices - period \<le> i \<and> i < length prices \<longrightarrow> prices ! (i - 1) \<le> prices ! i"
    using assms(3) by simp
  moreover have "0 < length prices - period"
    using assms(2) by simp
  ultimately obtain g where
    "rsi_loop (map Fin prices) (real (length prices - period)) (Fin 0, Fin 0) = (Fin g, Fin 0)"
    using rsi_loop_nonneg [of "length prices - period" prices 0] by blast
  with assms(1,2) show ?thesis
    by (simp add: calculateRSI_def start)
qed

lemma rl_rsi_fold_nonneg:
  "\<forall>i \<in> set is. close (candles ! (i - 1)) \<le> close (candles ! i) \<Longrightarrow>
   snd (foldl (\<lambda>(gains, losses) i.
                let change = close (candles ! i) - close (candles ! (i - 1))
                in if change > 0 then (gains + change, losses)
                   else (gains, losses + \<bar>change\<bar>))
              (g0, 0) is) = 0"
proof (induction "is" arbitrary: g0)
  case Nil
  then show ?case by simp
next
  case (Cons i "is")
  then show ?case
    by (cases "close (candles ! (i - 1)) < close (candles ! i)") (simp_all add: Let_def)
qed

lemma rl_calculateRSI_100:
  assumes "0 < period" and "period + 1 \<le> length candles"
    and "\<forall>i \<in> {length candles - period ..< length candles}.
           close (candles ! (i - 1)) \<le> close (candles ! i)"
  shows "rl_calculateRSI candles period = Fin 100"
proof -
  have "\<forall>i \<in> set [length candles - period ..< length candles].
          close (candles ! (i - 1)) \<le> close (candles ! i)"
    using assms by auto
  from rl_rsi_fold_nonneg [OF this, of 0] assms show ?thesis
    by (simp add: rl_calculateRSI_def)
qed

text \<open>
  Outside the whole periods from 1 on the backtest's \<open>calculateRSI\<close> returns \<open>NaN\<close>,
  also on rising prices: at the period 0 it divides 0 by 0, and at a period that is not
  whole, such as 2.5, every read of its loop misses.
\<close>

lemma calculateRSI_other_periods:
  "calculateRSI (map Fin [1]) 0 = NaN \<and> calculateRSI (map Fin [1, 2, 3, 4]) (5 / 2) = NaN"
  by code_simp

text \<open>
  C6. For every whole period of at least 1 (the number of deltas sampled) and every price
  sequence of at least \<open>period + 1\<close> prices in which none of the last \<open>period\<close> deltas is
  negative, \<open>calculateRSI\<close> returns exactly 100; so does the agent's \<open>calculateRSI\<close> on
  candles, for their closes.
\<close>

theorem rsi_all_gains:
  "(0 < period \<and> period + 1 \<le> length prices \<and>
    (\<forall>i \<in> {length prices - period ..< length prices}. prices ! (i - 1) \<le> prices ! i)
      \<longrightarrow> calculateRSI (map Fin prices) (real period) = Fin 100) \<and>
   (0 < period \<and> period + 1 \<le> length candles \<and>
    (\<forall>i \<in> {length candles - period ..< length candles}.
        close (candles ! (i - 1)) \<le> close (candles ! i))
      \<longrightarrow> rl_calculateRSI candles period = Fin 100)"
  using calculateRSI_100 rl_calculateRSI_100 by blast

lemma stepping_closes:
  "\<forall>i \<in> {length stepping_series - 3 ..< length stepping_series}.
     close (stepping_series ! (i - 1)) \<le> close (stepping_series ! i)"
proof
  fix i assume "i \<in> {length stepping_series - 3 ..< length stepping_series}"
  then have "i = 1 \<or> i = 2 \<or> i = 3"
    by (auto simp add: stepping_series_def)
  then show "close (stepping_series ! (i - 1)) \<le> close (stepping_series ! i)"
    by (auto simp add: stepping_series_def)
qed

lemma stepping_prices:
  "\<forall>i \<in> {length [1, 2, 2, 5 :: real] - 3 ..< length [1, 2, 2, 5 :: real]}.
     [1, 2, 2, 5 :: real] ! (i - 1) \<le> [1, 2, 2, 5] ! i"
proof
  fix i assume "i \<in> {length [1, 2, 2, 5 :: real] - 3 ..< length [1, 2, 2, 5 :: real]}"
  then have "i = 1 \<or> i = 2 \<or> i = 3"
    by auto
  then show "[1, 2, 2, 5 :: real] ! (i - 1) \<le> [1, 2, 2, 5] ! i"
    by auto
qed

theorem rsi_all_gains_witness:
  "(0::nat) < 3 \<and> 3 + 1 \<le> length [1, 2, 2, 5 :: real] \<and>
   calculateRSI (map Fin [1, 2, 2, 5]) (real 3) = Fin 100 \<and>
   3 + 1 \<le> length stepping_series \<and> rl_calculateRSI stepping_series 3 = Fin 100"
proof -
  have "3 + 1 \<le> length stepping_series"
    by (simp add: stepping_series_def)
  then show ?thesis
    using rsi_all_gains [of 3 "[1, 2, 2, 5]" stepping_series] stepping_closes stepping_prices
    by simp
qed

section \<open>Prediction\<close>

lemma calculateTrendStrength_ok:
  "candles \<noteq> [] \<Longrightarrow> \<exists>v. calculateTrendStrength candles period = Inr v"
  by (simp add: calculateTrendStrength_def Let_def)

lemma calculateVolatility_ok:
  "length candles \<noteq> period \<Longrightarrow> \<exists>v. calculateVolatility candles period = Inr v"
  by (simp add: calculateVolatility_def Let_def)

text \<open>
  \<open>extractState\<close> never throws: it calls the two functions that can only on 27 candles
  or more.
\<close>

lemma extractState_ok: "\<exists>s. extractState candles = Inr s"
proof (cases "length candles < 27")
  case True
  then show ?thesis by (simp add: extractState_def)
next
  case False
  then have "candles \<noteq> []" and "length candles \<noteq> 14" by auto
  then obtain ts vol where "calculateTrendStrength candles 20 = Inr ts"
    and "calculateVolatility candles 14 = Inr vol"
    using calculateTrendStrength_ok calculateVolatility_ok by blast
  with False show ?thesis
    by (simp add: extractState_def Let_def and_then_def)
qed

lemma getQValues_twice:
  "getQValues (snd (getQValues agent key)) key =
     (fst (getQValues agent key), snd (getQValues agent key))"
  by (auto simp add: getQValues_def Let_def split: option.splits)

lemma selectAction_greedy:
  "selectAction agent state False rng k =
     (greedy (fst (getQValues agent (discretizeState state))),
      snd (getQValues agent (discretizeState state)), k)"
  by (simp add: selectAction_def Let_def split_def)

lemma predict_eq:
  assumes "extractState candles = Inr s"
  shows "predict agent candles rng k =
    (let q = fst (getQValues agent (discretizeState s)) in
     (Inr \<lparr>pr_action = greedy q,
           pr_confidence =
             (if \<bar>buy q\<bar> + \<bar>sell q\<bar> + \<bar>hold q\<bar> > Fin 0
              then \<bar>q_of q (greedy q)\<bar> / (\<bar>buy q\<bar> + \<bar>sell q\<bar> + \<bar>hold q\<bar>)
              else Fin (33 / 100)),
           qValues = q, stateFeatures = s\<rparr>,
      snd (getQValues agent (discretizeState s)), k))"
  using assms
  by (simp add: predict_def Let_def split_def selectAction_greedy getQValues_twice)

text \<open>
  C2, as stated, on a new agent and no candles: the three action values are zero and the
  confidence is 0.33, which is not 1/3.
\<close>

theorem predict_all_zero_counterexample:
  "fst (predict (new_RLTradingAgent None None) [] rng0 0) =
     Inr \<lparr>pr_action = Buy, pr_confidence = Fin (33 / 100),
          qValues = \<lparr>buy = Fin 0, sell = Fin 0, hold = Fin 0\<rparr>,
          stateFeatures = \<lparr>priceChange = Fin 0, rsi = Fin 50, macdSignal = 0,
            volumeChange = Fin 0, trendStrength = Fin 0, volatility = Fin 0\<rparr>\<rparr> \<and>
   Fin (33 / 100) \<noteq> Fin (1 / 3)"
  by (simp add: predict_def extractState_def getQValues_def new_RLTradingAgent_def
      or_default_def selectAction_def greedy_def Let_def)

text \<open>
  C2, amended. For every agent and every candle series \<open>predict\<close> returns a prediction,
  draws no random number and returns the same whatever the random source; the action is
  the greedy one for the action values of the discretized state; the confidence is the
  absolute value of the chosen action divided by the sum of the absolute values of the
  three when that sum is greater than 0, and 0.33 otherwise, as when the three values are
  zero.
\<close>

theorem predict_greedy_confidence:
  "\<exists>s p agent'.
     extractState candles = Inr s \<and>
     predict agent candles rng k = (Inr p, agent', k) \<and>
     (\<forall>rng'. predict agent candles rng' k = predict agent candles rng k) \<and>
     qValues p = fst (getQValues agent (discretizeState s)) \<and>
     pr_action p = greedy (qValues p) \<and>
     pr_confidence p =
       (if \<bar>buy (qValues p)\<bar> + \<bar>sell (qValues p)\<bar> + \<bar>hold (qValues p)\<bar> > Fin 0
        then \<bar>q_of (qValues p) (pr_action p)\<bar>
             / (\<bar>buy (qValues p)\<bar> + \<bar>sell (qValues p)\<bar> + \<bar>hold (qValues p)\<bar>)
        else Fin (33 / 100)) \<and>
     (qValues p = \<lparr>buy = Fin 0, sell = Fin 0, hold = Fin 0\<rparr>
        \<longrightarrow> pr_confidence p = Fin (33 / 100))"
proof -
  obtain s where s: "extractState candles = Inr s"
    using extractState_ok by blast
  show ?thesis
    using s by (auto simp add: predict_eq [OF s] Let_def)
qed

lemma new_agent_values:
  "fst (getQValues (new_RLTradingAgent None None) key) = \<lparr>buy = Fin 0, sell = Fin 0, hold = Fin 0\<rparr>"
  by (simp add: getQValues_def new_RLTradingAgent_def or_default_def Let_def)

theorem predict_greedy_confidence_witness:
  "\<exists>s p agent'.
     extractState [] = Inr s \<and>
     predict (new_RLTradingAgent None None) [] rng0 0 = (Inr p, agent', 0) \<and>
     qValues p = \<lparr>buy = Fin 0, sell = Fin 0, hold = Fin 0\<rparr> \<and>
     pr_action p = greedy (qValues p) \<and>
     pr_confidence p = Fin (33 / 100)"
proof -
  from predict_greedy_confidence [of "[]" "new_RLTradingAgent None None" rng0 0]
  obtain s p agent' where
    s: "extractState [] = Inr s" and
    p: "predict (new_RLTradingAgent None None) [] rng0 0 = (Inr p, agent', 0)" and
    q: "qValues p = fst (getQValues (new_RLTradingAgent None None) (discretizeState s))" and
    a: "pr_action p = greedy (qValues p)" and
    c: "qValues p = \<lparr>buy = Fin 0, sell = Fin 0, hold = Fin 0\<rparr>
          \<longrightarrow> pr_confidence p = Fin (33 / 100)"
    by blast
  from q have z: "qValues p = \<lparr>buy = Fin 0, sell = Fin 0, hold = Fin 0\<rparr>"
    by (simp only: new_agent_values)
  with c have "pr_confidence p = Fin (33 / 100)"
    by blast
  with s p z a show ?thesis
    by blast
qed

section \<open>Reset\<close>

text \<open>
  C3, as stated, on an agent configured to start with the exploration rate 0.3: after
  \<open>reset\<close> the statistics report 0.1.
\<close>

theorem reset_configured_rate_counterexample:
  "explorationRate (config (new_RLTradingAgent (Some options_rate_03) None)) = 3 / 10 \<and>
   st_explorationRate (getStats (reset (new_RLTradingAgent (Some options_rate_03) None))) = 1 / 10"
  by (simp add: getStats_def reset_def new_RLTradingAgent_def options_rate_03_def or_default_def)

text \<open>
  C3, amended. For every agent, whatever its configuration and its history, \<open>reset\<close>
  followed by \<open>getStats\<close> returns \<open>totalEpisodes = 0\<close>, \<open>totalReward = 0\<close>,
  \<open>statesLearned = 0\<close> and \<open>explorationRate = 0.1\<close>, the default starting rate.
\<close>

theorem reset_then_getStats:
  "getStats (reset agent) =
     \<lparr>st_totalEpisodes = 0, st_totalReward = Fin 0, avgReward = Fin 0,
      st_explorationRate = 1 / 10, statesLearned = 0\<rparr>"
  by (simp add: getStats_def reset_def)

theorem reset_then_getStats_witness:
  "getStats (reset (new_RLTradingAgent (Some options_rate_03) None)) =
     \<lparr>st_totalEpisodes = 0, st_totalReward = Fin 0, avgReward = Fin 0,
      st_explorationRate = 1 / 10, statesLearned = 0\<rparr>"
  by (rule reset_then_getStats)

section \<open>Signal thresholds\<close>

lemma round_le_40: "x \<le> 40 \<Longrightarrow> round (x::real) \<le> 40"
  unfolding round_def by linarith

lemma round_ge_60: "60 \<le> x \<Longrightarrow> 60 \<le> round (x::real)"
  unfolding round_def by linarith

lemma sig_confidence_eq:
  "sig_confidence (generateSMCSignal a) =
     round (if sig_action (generateSMCSignal a) = Hold
            then min (boosted_confidence a) 40 else boosted_confidence a)"
  by (simp add: generateSMCSignal_def Let_def split_def)

lemma action_needs_60:
  "\<not> 60 \<le> boosted_confidence a \<Longrightarrow> sig_action (generateSMCSignal a) = Hold"
  by (simp add: generateSMCSignal_def Let_def)

lemma boosted_le_95: "activeKillZone a \<noteq> None \<Longrightarrow> boosted_confidence a \<le> 95"
  by (simp add: boosted_confidence_def)

text \<open>
  C7. For every analysis, \<open>generateSMCSignal\<close> returns buy or sell only when the
  confidence, boosted and capped at 95 inside a kill zone, is at least 60 (the confidence
  it returns is then at least 60 too); when it returns hold, the confidence it returns is
  at most 40.
\<close>

theorem generateSMCSignal_thresholds:
  "(sig_action (generateSMCSignal analysis) \<noteq> Hold \<longrightarrow>
      60 \<le> boosted_confidence analysis \<and> 60 \<le> sig_confidence (generateSMCSignal analysis)) \<and>
   (sig_action (generateSMCSignal analysis) = Hold \<longrightarrow>
      sig_confidence (generateSMCSignal analysis) \<le> 40) \<and>
   (activeKillZone analysis \<noteq> None \<longrightarrow> boosted_confidence analysis \<le> 95)"
proof (intro conjI impI)
  assume act: "sig_action (generateSMCSignal analysis) \<noteq> Hold"
  then show b: "60 \<le> boosted_confidence analysis"
    using action_needs_60 by blast
  from act b show "60 \<le> sig_confidence (generateSMCSignal analysis)"
    by (simp add: sig_confidence_eq round_ge_60)
next
  assume "sig_action (generateSMCSignal analysis) = Hold"
  then show "sig_confidence (generateSMCSignal analysis) \<le> 40"
    by (simp add: sig_confidence_eq round_le_40)
next
  assume "activeKillZone analysis \<noteq> None"
  then show "boosted_confidence analysis \<le> 95"
    by (rule boosted_le_95)
qed

lemma analysis_long_buys: "sig_action (generateSMCSignal analysis_long) = Buy"
  by (simp add: generateSMCSignal_def analysis_long_def boosted_confidence_def last_opt_def)

lemma analysis_neutral_holds: "sig_action (generateSMCSignal analysis_neutral) = Hold"
  by (simp add: generateSMCSignal_def analysis_neutral_def)

theorem generateSMCSignal_thresholds_witness:
  "sig_action (generateSMCSignal analysis_long) = Buy \<and>
   activeKillZone analysis_long = Some london \<and>
   60 \<le> boosted_confidence analysis_long \<and> boosted_confidence analysis_long \<le> 95 \<and>
   60 \<le> sig_confidence (generateSMCSignal analysis_long) \<and>
   sig_action (generateSMCSignal analysis_neutral) = Hold \<and>
   sig_confidence (generateSMCSignal analysis_neutral) \<le> 40"
  using generateSMCSignal_thresholds [of analysis_long]
    generateSMCSignal_thresholds [of analysis_neutral]
    analysis_long_buys analysis_neutral_holds
  by (simp add: analysis_long_def)

section \<open>Fair-value gaps on rising series\<close>

lemma upt_2_3: "[2 ..< 3] = [2::nat]"
  by (simp add: upt_rec)

text \<open>
  C9, as stated, on three candles that rise by 10% each with no retracement at all: the
  detector records a bullish gap.
\<close>

theorem fvg_rising_counterexample:
  "rising gapping_series \<and> no_retracement gapping_series \<and>
   detectFairValueGaps gapping_series =
     [\<lparr>fvg_type = Bullish, startPrice = 100, endPrice = 121, gapSize = 21,
       gapPercent = Fin (210 / 11), fvg_timestamp = 1, filled = False\<rparr>]"
  by (simp add: gapping_series_def flat_candle_def detectFairValueGaps_def fvg_at_def
      slice_last_def upt_2_3 Let_def)

lemma rising_low: "rising cs \<Longrightarrow> i + 1 < length cs \<Longrightarrow> low (cs ! i) < low (cs ! (i + 1))"
proof (induction cs arbitrary: i rule: rising.induct)
  case (1 c1 c2 cs)
  then show ?case by (cases i) simp_all
qed simp_all

lemma bounded_advance_nth:
  "bounded_advance cs \<Longrightarrow> i + 2 < length cs \<Longrightarrow>
   low (cs ! (i + 2)) - high (cs ! i) \<le> close (cs ! (i + 1)) * (1 / 1000)"
proof (induction cs arbitrary: i rule: bounded_advance.induct)
  case (1 c1 c2 c3 cs)
  then show ?case by (cases i) simp_all
qed simp_all

lemma no_bearish_gap:
  assumes "low c1 < low c3" and "low c3 \<le> high c3"
  shows "\<forall>g \<in> set (fvg_at c1 c2 c3). fvg_type g = Bullish"
  using assms by (simp add: fvg_at_def Let_def)

lemma no_gap:
  assumes "low c1 < low c3" and "low c3 \<le> high c3" and "0 < close c2"
    and "low c3 - high c1 \<le> close c2 * (1 / 1000)"
  shows "fvg_at c1 c2 c3 = []"
proof -
  have "(low c3 - high c1) / close c2 * 100 \<le> 1 / 10"
    using assms(3,4) by (simp add: field_simps)
  with assms show ?thesis
    by (simp add: fvg_at_def Let_def)
qed

lemma set_slice_last: "set (slice_last n xs) \<subseteq> set xs"
  by (simp add: slice_last_def set_drop_subset)

lemma fvg_windows:
  assumes "rising cs" and "list_all well_formed cs" and "i \<in> set [2 ..< length cs]"
  shows "low (cs ! (i - 2)) < low (cs ! i) \<and> low (cs ! i) \<le> high (cs ! i) \<and>
         0 < close (cs ! (i - 1))"
proof -
  from assms(3) have i: "2 \<le> i" "i < length cs" by simp_all
  then have e: "i - 2 + 1 = i - 1" "i - 1 + 1 = i" by simp_all
  have "low (cs ! (i - 2)) < low (cs ! (i - 1))"
    using rising_low [OF assms(1), of "i - 2"] i e by simp
  moreover have "low (cs ! (i - 1)) < low (cs ! i)"
    using rising_low [OF assms(1), of "i - 1"] i e by simp
  moreover from assms(2) i have "well_formed (cs ! i)" "well_formed (cs ! (i - 1))"
    by (simp_all add: list_all_length)
  ultimately show ?thesis by (simp add: well_formed_def)
qed

lemma fvg_at_rising:
  assumes "rising cs" and "list_all well_formed cs" and "i \<in> set [2 ..< length cs]"
  shows "\<forall>g \<in> set (fvg_at (cs ! (i - 2)) (cs ! (i - 1)) (cs ! i)). fvg_type g = Bullish"
proof (rule no_bearish_gap)
  show "low (cs ! (i - 2)) < low (cs ! i)"
    using fvg_windows [OF assms] by simp
  show "low (cs ! i) \<le> high (cs ! i)"
    using fvg_windows [OF assms] by simp
qed

lemma fvg_at_bounded:
  assumes "rising cs" and "list_all well_formed cs" and "bounded_advance cs"
    and i: "i \<in> set [2 ..< length cs]"
  shows "fvg_at (cs ! (i - 2)) (cs ! (i - 1)) (cs ! i) = []"
proof (rule no_gap)
  show "low (cs ! (i - 2)) < low (cs ! i)"
    using fvg_windows [OF assms(1,2) i] by simp
  show "low (cs ! i) \<le> high (cs ! i)"
    using fvg_windows [OF assms(1,2) i] by simp
  show "0 < close (cs ! (i - 1))"
    using fvg_windows [OF assms(1,2) i] by simp
  from i have i2: "2 \<le> i" "i < length cs" by simp_all
  then have e: "i - 2 + 2 = i" "i - 2 + 1 = i - 1" and l: "i - 2 + 2 < length cs"
    by arith+
  show "low (cs ! i) - high (cs ! (i - 2)) \<le> close (cs ! (i - 1)) * (1 / 1000)"
    using bounded_advance_nth [OF assms(3) l] unfolding e .
qed

text \<open>
  C9, amended. On every strictly rising series of well-formed candles (low not above
  high, positive close) the detector records no bearish gap; and when, moreover, no
  candle's low is above the high of the candle two bars before it by more than 0.1% of
  the close of the candle between them, the gap list is empty.
\<close>

theorem fvg_rising:
  "(rising cs \<and> list_all well_formed cs \<longrightarrow>
      (\<forall>g \<in> set (detectFairValueGaps cs). fvg_type g = Bullish)) \<and>
   (rising cs \<and> list_all well_formed cs \<and> bounded_advance cs \<longrightarrow>
      detectFairValueGaps cs = [])"
proof (intro conjI impI)
  assume h: "rising cs \<and> list_all well_formed cs"
  have sub: "set (detectFairValueGaps cs)
             \<subseteq> set (concat (map (\<lambda>i. fvg_at (cs ! (i - 2)) (cs ! (i - 1)) (cs ! i))
                                [2 ..< length cs]))"
    unfolding detectFairValueGaps_def by (rule set_slice_last)
  show "\<forall>g \<in> set (detectFairValueGaps cs). fvg_type g = Bullish"
  proof
    fix g assume "g \<in> set (detectFairValueGaps cs)"
    with sub have "g \<in> set (concat (map (\<lambda>i. fvg_at (cs ! (i - 2)) (cs ! (i - 1)) (cs ! i))
                                  [2 ..< length cs]))"
      by (rule subsetD)
    then obtain i where i: "i \<in> set [2 ..< length cs]"
      and g: "g \<in> set (fvg_at (cs ! (i - 2)) (cs ! (i - 1)) (cs ! i))"
      unfolding set_concat set_map by blast
    from fvg_at_rising [OF _ _ i] h g show "fvg_type g = Bullish"
      by simp
  qed
next
  assume h: "rising cs \<and> list_all well_formed cs \<and> bounded_advance cs"
  have "\<forall>i \<in> set [2 ..< length cs]. fvg_at (cs ! (i - 2)) (cs ! (i - 1)) (cs ! i) = []"
    using fvg_at_bounded h by blast
  then have "concat (map (\<lambda>i. fvg_at (cs ! (i - 2)) (cs ! (i - 1)) (cs ! i)) [2 ..< length cs]) = []"
    unfolding concat_eq_Nil_conv set_map by blast
  then show "detectFairValueGaps cs = []"
    unfolding detectFairValueGaps_def by (simp only: slice_last_def drop_Nil if_cancel)
qed

theorem fvg_rising_witness:
  "rising stepping_series \<and> list_all well_formed stepping_series \<and>
   bounded_advance stepping_series \<and> detectFairValueGaps stepping_series = []"
proof -
  have "rising stepping_series \<and> list_all well_formed stepping_series \<and>
        bounded_advance stepping_series"
    by (simp add: stepping_series_def well_formed_def)
  then show ?thesis
    using fvg_rising [of stepping_series] by blast
qed

section \<open>The SMC strategy of the backtest engine\<close>

text \<open>
  C8, as stated, at the last bar of fifty candles: the engine's SMC strategy says buy (the
  last candle takes out the lows before it and closes higher), while the signal generator
  of the analyzer, on the analysis of the trailing 20 candles, says hold.
\<close>

theorem smc_strategy_counterexample:
  "length dip_series = 50 \<and>
   getSignal smc_engine (map (\<lambda>c. Fin (close c)) (take 50 dip_series)) (take 50 dip_series) = Buy \<and>
   sig_action (generateSMCSignal
     (analyzeSMC ''BTCUSDT'' (slice_last 20 (take 50 dip_series)) 9 0)) = Hold"
  by code_simp

lemma Math_min_PInf [simp]: "Math_min PInf (Fin x) = Fin x"
  by (simp add: Math_min_def less_eq_num_def)

lemma Math_max_NInf [simp]: "Math_max NInf (Fin x) = Fin x"
  by (simp add: Math_max_def less_eq_num_def)

lemma foldl_Math_min_Fin: "foldl Math_min (Fin m) (map Fin xs) = Fin (foldl min m xs)"
  by (induction xs arbitrary: m) simp_all

lemma foldl_Math_max_Fin: "foldl Math_max (Fin m) (map Fin xs) = Fin (foldl max m xs)"
  by (induction xs arbitrary: m) simp_all

lemma less_foldl_min: "(x::real) < foldl min m xs \<longleftrightarrow> x < m \<and> (\<forall>y \<in> set xs. x < y)"
  by (induction xs arbitrary: m) (auto simp add: min_def)

lemma foldl_max_less: "foldl max m xs < (x::real) \<longleftrightarrow> m < x \<and> (\<forall>y \<in> set xs. y < x)"
  by (induction xs arbitrary: m) (auto simp add: max_def)

lemma less_Math_min_list: "Fin x < Math_min_list xs \<longleftrightarrow> (\<forall>y \<in> set xs. x < y)"
proof (cases xs)
  case Nil
  then show ?thesis by (simp add: Math_min_list_def less_num_def)
next
  case (Cons y ys)
  then show ?thesis
    by (simp add: Math_min_list_def foldl_Math_min_Fin less_foldl_min)
qed

lemma Math_max_list_less: "Math_max_list xs < Fin x \<longleftrightarrow> (\<forall>y \<in> set xs. y < x)"
proof (cases xs)
  case Nil
  then show ?thesis by (simp add: Math_max_list_def less_num_def)
next
  case (Cons y ys)
  then show ?thesis
    by (simp add: Math_max_list_def foldl_Math_max_Fin foldl_max_less)
qed

lemma length_slice_last_20: "20 \<le> length xs \<Longrightarrow> length (slice_last 20 xs) = 20"
  by (simp add: slice_last_def)

lemma getSMCSignal_rule:
  "getSMCSignal candles =
     (if length candles < 20 then Hold
      else
        let w = slice_last 20 candles; cur = last w; before = butlast w
        in if (\<forall>c \<in> set before. low cur < low c) \<and> close cur > close (last before) then Buy
           else if (\<forall>c \<in> set before. high c < high cur) \<and> close cur < close (last before) then Sell
           else Hold)"
proof (cases "length candles < 20")
  case True
  then show ?thesis by (simp add: getSMCSignal_def)
next
  case False
  define w where "w = slice_last 20 candles"
  from False have len: "length w = 20"
    by (simp add: w_def length_slice_last_20)
  then have ne: "w \<noteq> []" and bne: "butlast w \<noteq> []"
    by (auto simp add: butlast_conv_take)
  have cur: "w ! 19 = last w"
    using len ne by (simp add: last_conv_nth)
  have prev: "w ! 18 = last (butlast w)"
    using len bne by (simp add: last_conv_nth nth_butlast)
  have "getSMCSignal candles =
      (if Fin (low (w ! 19)) < Math_min_list (butlast (map low w)) \<and>
          close (w ! 19) > close (w ! 18) then Buy
       else if Fin (high (w ! 19)) > Math_max_list (butlast (map high w)) \<and>
               close (w ! 19) < close (w ! 18) then Sell
       else Hold)"
    using False len by (simp add: getSMCSignal_def Let_def w_def [symmetric])
  also have "\<dots> =
      (if (\<forall>c \<in> set (butlast w). low (last w) < low c) \<and>
          close (last w) > close (last (butlast w)) then Buy
       else if (\<forall>c \<in> set (butlast w). high c < high (last w)) \<and>
               close (last w) < close (last (butlast w)) then Sell
       else Hold)"
    by (simp add: cur prev less_Math_min_list Math_max_list_less map_butlast [symmetric])
  finally show ?thesis
    using False by (simp add: Let_def w_def)
qed

text \<open>
  C8, amended. The SMC strategy of the backtest engine is a rule of its own on the
  trailing 20 candles, and calls neither \<open>analyzeSMC\<close> nor \<open>generateSMCSignal\<close>: on
  fewer than 20 candles it holds; otherwise it buys when the low of the last candle is
  below the lows of the 19 candles before it and its close is above the close before,
  else sells when its high is above the highs of those 19 and its close is below the close
  before, else holds.
\<close>

theorem smc_strategy_rule:
  "strategy cfg = Smc \<longrightarrow>
   getSignal cfg prices candles =
     (if length candles < 20 then Hold
      else
        let w = slice_last 20 candles; cur = last w; before = butlast w
        in if (\<forall>c \<in> set before. low cur < low c) \<and> close cur > close (last before) then Buy
           else if (\<forall>c \<in> set before. high c < high cur) \<and> close cur < close (last before) then Sell
           else Hold)"
proof
  assume "strategy cfg = Smc"
  then have "getSignal cfg prices candles = getSMCSignal candles"
    by (simp add: getSignal_def)
  then show "getSignal cfg prices candles =
     (if length candles < 20 then Hold
      else
        let w = slice_last 20 candles; cur = last w; before = butlast w
        in if (\<forall>c \<in> set before. low cur < low c) \<and> close cur > close (last before) then Buy
           else if (\<forall>c \<in> set before. high c < high cur) \<and> close cur < close (last before) then Sell
           else Hold)"
    by (simp only: getSMCSignal_rule)
qed

theorem smc_strategy_rule_witness:
  "strategy smc_engine = Smc \<and>
   getSignal smc_engine (map (\<lambda>c. Fin (close c)) dip_series) dip_series = Buy"
proof -
  have s: "strategy smc_engine = Smc"
    by (simp add: smc_engine_def BacktestEngine_def)
  have "(if length dip_series < 20 then Hold
      else
        let w = slice_last 20 dip_series; cur = last w; before = butlast w
        in if (\<forall>c \<in> set before. low cur < low c) \<and> close cur > close (last before) then Buy
           else if (\<forall>c \<in> set before. high c < high cur) \<and> close cur < close (last before) then Sell
           else Hold) = Buy"
    by code_simp
  with s smc_strategy_rule [of smc_engine "map (\<lambda>c. Fin (close c)) dip_series" dip_series]
  show ?thesis
    by simp
qed

section \<open>Training\<close>

text \<open>
  The reads by a random index are in range: \<open>actions[Math.floor(Math.random() * 3)]\<close>
  and, on a memory that is not empty, \<open>replayMemory[idx]\<close>.
\<close>

lemma Rep_unit_real_bounds: "0 \<le> Rep_unit_real r \<and> Rep_unit_real r < 1"
  using Rep_unit_real [of r] by simp

lemma random_index_in_range:
  assumes "0 < n"
  shows "0 \<le> \<lfloor>Rep_unit_real r * real n\<rfloor> \<and> \<lfloor>Rep_unit_real r * real n\<rfloor> < int n"
proof -
  have b: "0 \<le> Rep_unit_real r" "Rep_unit_real r < 1"
    using Rep_unit_real_bounds by simp_all
  from b assms have "0 \<le> Rep_unit_real r * real n"
    by simp
  moreover from b assms have "Rep_unit_real r * real n < real n"
    by simp
  ultimately show ?thesis
    by (simp add: floor_less_iff)
qed

lemma random_action_in_range: "nat \<lfloor>Rep_unit_real r * 3\<rfloor> < length [Buy, Sell, Hold]"
proof -
  have "0 \<le> \<lfloor>Rep_unit_real r * 3\<rfloor>" and "\<lfloor>Rep_unit_real r * 3\<rfloor> < 3"
    using random_index_in_range [of 3 r] by simp_all
  then have "nat \<lfloor>Rep_unit_real r * 3\<rfloor> < 3" by linarith
  then show ?thesis by simp
qed

lemma at_opt_random:
  assumes "mem \<noteq> []"
  shows "\<exists>e. at_opt mem \<lfloor>Rep_unit_real r * real (length mem)\<rfloor> = Some e"
  using random_index_in_range [of "length mem" r] assms by (simp add: at_opt_def)

lemma getQValues_keeps:
  "config (snd (getQValues agent key)) = config agent \<and>
   replayMemory (snd (getQValues agent key)) = replayMemory agent \<and>
   totalEpisodes (snd (getQValues agent key)) = totalEpisodes agent \<and>
   totalReward (snd (getQValues agent key)) = totalReward agent"
  by (simp add: getQValues_def Let_def split: option.splits)

lemma updateQValue_keeps:
  "config (updateQValue agent s a r ns) = config agent \<and>
   replayMemory (updateQValue agent s a r ns) = replayMemory agent \<and>
   totalEpisodes (updateQValue agent s a r ns) = totalEpisodes agent \<and>
   totalReward (updateQValue agent s a r ns) = totalReward agent"
  by (simp add: updateQValue_def Let_def split_def getQValues_keeps)

lemma replay_all_ok:
  "\<forall>x \<in> set batch. x \<noteq> None \<Longrightarrow>
   \<exists>agent'. replay_all agent batch = (None, agent') \<and> config agent' = config agent \<and>
     replayMemory agent' = replayMemory agent \<and> totalEpisodes agent' = totalEpisodes agent \<and>
     totalReward agent' = totalReward agent"
proof (induction agent batch rule: replay_all.induct)
  case (1 agent)
  then show ?case by simp
next
  case (2 agent batch)
  then show ?case by simp
next
  case (3 agent e batch)
  then show ?case by (simp add: updateQValue_keeps)
qed

lemma replayBatch_ok:
  "\<exists>agent' k'. replayBatch agent rng k = (None, agent', k') \<and> config agent' = config agent \<and>
     totalEpisodes agent' = totalEpisodes agent \<and> totalReward agent' = totalReward agent"
proof (cases "length (replayMemory agent) < batchSize (config agent)")
  case True
  then show ?thesis by (simp add: replayBatch_def)
next
  case False
  define mem where "mem = replayMemory agent"
  define batch where
    "batch = map (\<lambda>j. at_opt mem \<lfloor>Rep_unit_real (rng (k + j)) * real (length mem)\<rfloor>)
                 [0 ..< batchSize (config agent)]"
  have "\<forall>x \<in> set batch. x \<noteq> None"
  proof
    fix x assume "x \<in> set batch"
    then obtain j where j: "j < batchSize (config agent)"
      and x: "x = at_opt mem \<lfloor>Rep_unit_real (rng (k + j)) * real (length mem)\<rfloor>"
      by (auto simp add: batch_def)
    from j False have "mem \<noteq> []"
      by (auto simp add: mem_def)
    from at_opt_random [OF this] x show "x \<noteq> None"
      by auto
  qed
  from replay_all_ok [OF this, of agent] obtain agent' where
    "replay_all agent batch = (None, agent')" "config agent' = config agent"
    "totalEpisodes agent' = totalEpisodes agent" "totalReward agent' = totalReward agent"
    by blast
  with False show ?thesis
    by (simp add: replayBatch_def Let_def mem_def [symmetric] batch_def [symmetric])
qed

lemma selectAction_keeps:
  "config (fst (snd (selectAction agent s explore rng k))) = config agent \<and>
   totalEpisodes (fst (snd (selectAction agent s explore rng k))) = totalEpisodes agent \<and>
   totalReward (fst (snd (selectAction agent s explore rng k))) = totalReward agent"
  by (simp add: selectAction_def Let_def split_def getQValues_keeps)

lemma addExperience_keeps:
  "config (addExperience agent e) = config agent \<and>
   totalEpisodes (addExperience agent e) = totalEpisodes agent \<and>
   totalReward (addExperience agent e) = totalReward agent"
  by (simp add: addExperience_def Let_def)

text \<open>
  A pass of the loop never throws; it leaves the configuration and the counters of the
  agent as they are, and the locals as the \<open>switch\<close> and the bookkeeping leave them.
\<close>

lemma train_step_ok:
  "\<exists>a agent' k'.
     train_step candles rng (l, agent, k) i =
       Inr (pass l a (close (candles ! i)) (close (candles ! (i + 1))), agent', k') \<and>
     config agent' = config agent \<and> totalEpisodes agent' = totalEpisodes agent \<and>
     totalReward agent' = totalReward agent"
proof -
  obtain s where s: "extractState (slice (i - 30) (i + 1) candles) = Inr s"
    using extractState_ok by blast
  obtain ns where ns: "extractState (slice (i - 30 + 1) (i + 2) candles) = Inr ns"
    using extractState_ok by blast
  obtain a agent1 k1 where sel: "selectAction agent s True rng k = (a, agent1, k1)"
    by (cases "selectAction agent s True rng k") auto
  have keep1: "config agent1 = config agent" "totalEpisodes agent1 = totalEpisodes agent"
    "totalReward agent1 = totalReward agent"
    using selectAction_keeps [of agent s True rng k] sel by simp_all
  define reward where "reward = snd (act l a (close (candles ! i)) (close (candles ! (i + 1))))"
  define agent2 where
    "agent2 = addExperience agent1
       \<lparr>ex_state = s, ex_action = a, ex_reward = reward, ex_nextState = ns,
        ex_done = (i = length candles - 2)\<rparr>"
  have keep2: "config agent2 = config agent" "totalEpisodes agent2 = totalEpisodes agent"
    "totalReward agent2 = totalReward agent"
    using addExperience_keeps keep1 by (simp_all add: agent2_def)
  obtain agent3 k3 where rb: "replayBatch agent2 rng k1 = (None, agent3, k3)"
    and keep3: "config agent3 = config agent2" "totalEpisodes agent3 = totalEpisodes agent2"
      "totalReward agent3 = totalReward agent2"
    using replayBatch_ok by blast
  have "train_step candles rng (l, agent, k) i =
          (if length (replayMemory agent2) \<ge> batchSize (config agent2)
           then Inr (pass l a (close (candles ! i)) (close (candles ! (i + 1))), agent3, k3)
           else Inr (pass l a (close (candles ! i)) (close (candles ! (i + 1))), agent2, k1))"
    by (simp add: train_step_def s s [simplified] ns ns [simplified] sel Let_def split_def
        pass_def rb agent2_def [simplified, symmetric] reward_def [simplified, symmetric])
  with keep2 keep3 show ?thesis
    by (cases "length (replayMemory agent2) \<ge> batchSize (config agent2)") auto
qed

lemma train_loop_ok:
  "\<exists>l' agent' k'.
     train_loop candles rng is (l, agent, k) = Inr (l', agent', k') \<and>
     config agent' = config agent \<and> totalEpisodes agent' = totalEpisodes agent \<and>
     totalReward agent' = totalReward agent"
proof (induction "is" arbitrary: l agent k)
  case Nil
  then show ?case by simp
next
  case (Cons i "is")
  from train_step_ok [of candles rng l agent k i] obtain l1 agent1 k1 where
    st: "train_step candles rng (l, agent, k) i = Inr (l1, agent1, k1)" and
    keep: "config agent1 = config agent" "totalEpisodes agent1 = totalEpisodes agent"
      "totalReward agent1 = totalReward agent"
    by blast
  from Cons [of l1 agent1 k1] keep st show ?case
    by simp
qed

lemma train_ok:
  assumes "50 \<le> length candles"
  shows "\<exists>r agent' k'.
     train fl agent candles capital0 rng k = (Inr r, agent', k') \<and>
     config agent' = decayed fl (config agent) \<and>
     totalEpisodes agent' = totalEpisodes agent + 1 \<and>
     episodeNumber r = totalEpisodes agent + 1 \<and>
     ep_explorationRate r = explorationRate (decayed fl (config agent))"
proof -
  from train_loop_ok [of candles rng "[30 ..< length candles - 1]" "train_init capital0" agent k]
  obtain l agent1 k1 where
    lp: "train_loop candles rng [30 ..< length candles - 1] (train_init capital0, agent, k)
           = Inr (l, agent1, k1)" and
    keep: "config agent1 = config agent" "totalEpisodes agent1 = totalEpisodes agent"
    by blast
  from assms have "\<not> length candles < 50" by simp
  then show ?thesis
    by (simp add: train_def lp [simplified] keep Let_def decayed_def)
qed

lemma length_dip_series: "length dip_series = 50"
  by (simp add: dip_series_def)

text \<open>
  C1. On fewer than 50 candles \<open>train\<close> throws, and the agent after the call is the
  agent before it (Q-table, replay memory, episode counter, accumulated reward and
  configuration, the exploration rate included), with no random number drawn; on exactly
  50 candles it returns a result.
\<close>

theorem train_needs_50:
  "(length candles < 50 \<longrightarrow>
      train fl agent candles capital0 rng k =
        (Inl (Error ''Need at least 50 candles for training''), agent, k)) \<and>
   (length candles = 50 \<longrightarrow>
      (\<exists>r agent' k'. train fl agent candles capital0 rng k = (Inr r, agent', k')))"
proof (intro conjI impI)
  assume "length candles < 50"
  then show "train fl agent candles capital0 rng k =
        (Inl (Error ''Need at least 50 candles for training''), agent, k)"
    by (simp add: train_def)
next
  assume "length candles = 50"
  then have "50 \<le> length candles" by simp
  from train_ok [OF this, of fl agent capital0 rng k]
  show "\<exists>r agent' k'. train fl agent candles capital0 rng k = (Inr r, agent', k')"
    by blast
qed

theorem train_needs_50_witness:
  "length ([] :: Candle list) < 50 \<and>
   train exact (new_RLTradingAgent None None) [] 10000 rng0 0 =
     (Inl (Error ''Need at least 50 candles for training''), new_RLTradingAgent None None, 0) \<and>
   length dip_series = 50 \<and>
   (\<exists>r agent' k'. train exact (new_RLTradingAgent None None) dip_series 10000 rng0 0 = (Inr r, agent', k'))"
  using train_needs_50 [of "[]" exact "new_RLTradingAgent None None" 10000 rng0 0]
    train_needs_50 [of dip_series exact "new_RLTradingAgent None None" 10000 rng0 0]
    length_dip_series
  by simp

section \<open>Decay of the exploration rate\<close>

lemma train_returned_config:
  "train fl agent candles capital0 rng k = (Inr r, agent', k') \<Longrightarrow>
   config agent' = decayed fl (config agent)"
proof (cases "50 \<le> length candles")
  case True
  assume "train fl agent candles capital0 rng k = (Inr r, agent', k')"
  with train_ok [OF True, of fl agent capital0 rng k] show ?thesis by auto
next
  case False
  assume "train fl agent candles capital0 rng k = (Inr r, agent', k')"
  with False show ?thesis by (simp add: train_def)
qed

lemma episodes_config:
  "episodes fl agent inputs rng k = (None, agent', k') \<Longrightarrow>
   config agent' = (decayed fl ^^ length inputs) (config agent)"
proof (induction inputs arbitrary: agent k)
  case Nil
  then show ?case by simp
next
  case (Cons inp rest)
  obtain candles capital0 where inp: "inp = (candles, capital0)"
    by (cases inp) auto
  obtain res agent1 k1 where tr: "train fl agent candles capital0 rng k = (res, agent1, k1)"
    by (cases "train fl agent candles capital0 rng k") auto
  from Cons.prems inp tr obtain r where res: "res = Inr r"
    by (cases res) auto
  with Cons.prems inp tr have rest: "episodes fl agent1 rest rng k1 = (None, agent', k')"
    by simp
  from tr res have "config agent1 = decayed fl (config agent)"
    using train_returned_config by blast
  with Cons.IH [OF rest] show ?case
    by (simp add: funpow_swap1)
qed

lemma episodes_ok:
  "\<forall>inp \<in> set inputs. 50 \<le> length (fst inp) \<Longrightarrow>
   \<exists>agent' k'. episodes fl agent inputs rng k = (None, agent', k')"
proof (induction inputs arbitrary: agent k)
  case Nil
  then show ?case by simp
next
  case (Cons inp rest)
  obtain candles capital0 where inp: "inp = (candles, capital0)"
    by (cases inp) auto
  with Cons.prems have "50 \<le> length candles" by simp
  from train_ok [OF this, of fl agent capital0 rng k] obtain r agent1 k1 where
    tr: "train fl agent candles capital0 rng k = (Inr r, agent1, k1)"
    by blast
  from Cons.IH [of agent1 k1] Cons.prems obtain agent' k' where
    "episodes fl agent1 rest rng k1 = (None, agent', k')"
    by auto
  with tr inp show ?case
    by simp
qed

lemma two_episodes_config:
  "\<exists>agent' k'. episodes fl agent two_episodes rng k = (None, agent', k') \<and>
     config agent' = decayed fl (decayed fl (config agent))"
proof -
  have "\<forall>inp \<in> set two_episodes. 50 \<le> length (fst inp)"
    by (simp add: two_episodes_def length_dip_series)
  from episodes_ok [OF this, of fl agent rng k] obtain agent' k' where
    e: "episodes fl agent two_episodes rng k = (None, agent', k')"
    by blast
  from episodes_config [OF e] e show ?thesis
    by (simp add: two_episodes_def)
qed

lemma decayed_keeps:
  "minExploration ((decayed fl ^^ n) cfg) = minExploration cfg \<and>
   explorationDecay ((decayed fl ^^ n) cfg) = explorationDecay cfg"
  by (induction n) (simp_all add: decayed_def)

lemma decayed_Suc:
  "explorationRate ((decayed fl ^^ Suc n) cfg) =
     max (minExploration cfg)
         (fl (explorationRate ((decayed fl ^^ n) cfg) * explorationDecay cfg))"
  using decayed_keeps [where fl = fl and n = n and cfg = cfg] by (simp add: decayed_def)

lemma decayed_floor:
  "0 < n \<Longrightarrow> minExploration cfg \<le> explorationRate ((decayed fl ^^ n) cfg)"
  by (cases n) (simp_all add: decayed_Suc del: funpow.simps)

lemma rounded_within_at:
  "rounded_within u fl cfg n \<Longrightarrow> i < n \<Longrightarrow>
   \<bar>fl (explorationRate ((decayed fl ^^ i) cfg) * explorationDecay cfg)
      - explorationRate ((decayed fl ^^ i) cfg) * explorationDecay cfg\<bar>
     \<le> u * \<bar>explorationRate ((decayed fl ^^ i) cfg) * explorationDecay cfg\<bar>"
  by (simp add: rounded_within_def list_all_iff Let_def)

text \<open>One decay step seen from below and from above.\<close>

lemma decay_step_lower:
  fixes m d u c r y x :: real
  assumes "0 \<le> m" and "0 < d" and "0 \<le> u" and "u \<le> 1"
    and "c \<le> r" and "\<bar>y - r * d\<bar> \<le> u * \<bar>r * d\<bar>"
  shows "c * d * (1 - u) \<le> max m y"
proof (cases "0 \<le> r * d")
  case True
  with assms(6) have "r * d * (1 - u) \<le> y"
    by (simp add: algebra_simps abs_if split: if_splits)
  moreover have "c * d \<le> r * d"
    using assms(2,5) by simp
  then have "c * d * (1 - u) \<le> r * d * (1 - u)"
    using assms(4) by (simp add: mult_right_mono)
  ultimately show ?thesis
    by simp
next
  case False
  then have "r * d < 0" by simp
  moreover have "c * d \<le> r * d"
    using assms(2,5) by simp
  ultimately have "c * d \<le> 0" by simp
  then have "c * d * (1 - u) \<le> 0"
    using assms(4) by (simp add: mult_nonpos_nonneg)
  with assms(1) show ?thesis
    by simp
qed

lemma decay_step_upper:
  fixes m d u h r y :: real
  assumes "0 \<le> m" and "0 < d" and "d \<le> 1" and "0 \<le> u" and "u \<le> 1"
    and "r \<le> max m z * p" and "1 \<le> p" and "\<bar>y - r * d\<bar> \<le> u * \<bar>r * d\<bar>"
  shows "max m y \<le> max m (z * d) * (p * (1 + u))"
proof -
  have md: "m * d \<le> m"
    using assms(1,3) by (simp add: mult_left_le)
  have big: "0 \<le> max m (z * d)"
    using assms(1) by simp
  have "1 * 1 \<le> p * (1 + u)"
    using assms(4,7) by (intro mult_mono) simp_all
  then have p1: "1 \<le> p * (1 + u)"
    by simp
  have "max m (z * d) * 1 \<le> max m (z * d) * (p * (1 + u))"
    by (rule mult_left_mono [OF p1 big])
  then have "max m (z * d) \<le> max m (z * d) * (p * (1 + u))"
    by simp
  then have m_le: "m \<le> max m (z * d) * (p * (1 + u))"
    by (rule order_trans [OF max.cobounded1])
  have "y \<le> max m (z * d) * (p * (1 + u))"
  proof (cases "0 \<le> r * d")
    case True
    with assms(8) have "y \<le> r * d * (1 + u)"
      by (simp add: algebra_simps abs_if split: if_splits)
    also have "r * d \<le> max m z * p * d"
      using assms(2,6) by simp
    then have "r * d * (1 + u) \<le> max m z * p * d * (1 + u)"
      using assms(4) by (simp add: mult_right_mono)
    also have "max m z * d = max (m * d) (z * d)"
      using assms(2) by (simp add: max_mult_distrib_right)
    then have "max m z * p * d * (1 + u) = max (m * d) (z * d) * (p * (1 + u))"
      by (simp add: mult_ac)
    also have "max (m * d) (z * d) \<le> max m (z * d)"
      using md by (simp add: max_def)
    then have "max (m * d) (z * d) * (p * (1 + u)) \<le> max m (z * d) * (p * (1 + u))"
      using p1 by (simp add: mult_right_mono)
    finally show ?thesis .
  next
    case False
    with assms(8) have "y \<le> r * d * (1 - u)"
      by (simp add: algebra_simps abs_if split: if_splits)
    moreover from False have "r * d * (1 - u) \<le> 0"
      using assms(5) by (simp add: mult_nonpos_nonneg)
    moreover have "0 \<le> max m (z * d) * (p * (1 + u))"
      using big p1 by simp
    ultimately show ?thesis
      by simp
  qed
  with m_le show ?thesis
    by simp
qed

lemma decayed_lower:
  assumes "0 \<le> minExploration cfg" and "0 < explorationDecay cfg"
    and "0 \<le> u" and "u \<le> 1" and "rounded_within u fl cfg n"
  shows "i \<le> n \<Longrightarrow>
     explorationRate cfg * explorationDecay cfg ^ i * (1 - u) ^ i
       \<le> explorationRate ((decayed fl ^^ i) cfg)"
proof (induction i)
  case 0
  then show ?case by simp
next
  case (Suc i)
  then have ih: "explorationRate cfg * explorationDecay cfg ^ i * (1 - u) ^ i
       \<le> explorationRate ((decayed fl ^^ i) cfg)" and lt: "i < n"
    by simp_all
  from decay_step_lower [OF assms(1,2,3,4) ih rounded_within_at [OF assms(5) lt]]
  show ?case
    by (simp only: decayed_Suc power_Suc mult_ac)
qed

lemma decayed_upper:
  assumes "0 \<le> minExploration cfg" and "0 < explorationDecay cfg" and "explorationDecay cfg \<le> 1"
    and "0 \<le> u" and "u \<le> 1" and "rounded_within u fl cfg n"
  shows "i \<le> n \<Longrightarrow>
     explorationRate ((decayed fl ^^ i) cfg)
       \<le> max (minExploration cfg) (explorationRate cfg * explorationDecay cfg ^ i) * (1 + u) ^ i"
proof (induction i)
  case 0
  then show ?case by simp
next
  case (Suc i)
  then have ih: "explorationRate ((decayed fl ^^ i) cfg)
       \<le> max (minExploration cfg) (explorationRate cfg * explorationDecay cfg ^ i) * (1 + u) ^ i"
    and lt: "i < n"
    by simp_all
  have "1 \<le> (1 + u) ^ i"
    using assms(4) by (simp add: one_le_power)
  from decay_step_upper [OF assms(1,2,3,4,5) ih this rounded_within_at [OF assms(6) lt]]
  show ?case
    by (simp only: decayed_Suc power_Suc mult_ac)
qed

lemma decayed_bounds:
  assumes "0 \<le> minExploration cfg" and "0 < explorationDecay cfg" and "explorationDecay cfg \<le> 1"
    and "0 \<le> u" and "u \<le> 1" and "rounded_within u fl cfg n" and "0 < n"
  shows "max (minExploration cfg) (explorationRate cfg * explorationDecay cfg ^ n * (1 - u) ^ n)
           \<le> explorationRate ((decayed fl ^^ n) cfg) \<and>
         explorationRate ((decayed fl ^^ n) cfg)
           \<le> max (minExploration cfg) (explorationRate cfg * explorationDecay cfg ^ n) * (1 + u) ^ n"
  using decayed_lower [OF assms(1,2,4,5,6), of n] decayed_upper [OF assms(1,2,3,4,5,6), of n]
    decayed_floor [OF assms(7), of cfg fl]
  by simp

lemma exact_within: "rounded_within 0 exact cfg n"
  by (simp add: rounded_within_def list_all_iff exact_def)

lemma round_up_within: "rounded_within (1 / 2 ^ 53) round_up cfg n"
  by (simp add: rounded_within_def list_all_iff round_up_def Let_def abs_mult)

lemma negative_config:
  "explorationRate (config (new_RLTradingAgent (Some options_negative) None)) = - 4 \<and>
   explorationDecay (config (new_RLTradingAgent (Some options_negative) None)) = 1 / 2 \<and>
   minExploration (config (new_RLTradingAgent (Some options_negative) None)) = - 1"
  by (simp add: new_RLTradingAgent_def options_negative_def or_default_def)

lemma default_config:
  "explorationRate (config (new_RLTradingAgent None None)) = 1 / 10 \<and>
   explorationDecay (config (new_RLTradingAgent None None)) = 995 / 1000 \<and>
   minExploration (config (new_RLTradingAgent None None)) = 1 / 100"
  by (simp add: new_RLTradingAgent_def or_default_def)

text \<open>
  C4, as stated, on an agent with the initial rate -4, the floor -1 and the decay factor
  1/2: after two episodes the exploration rate is -1/2, while the formula gives -1. The
  two products, -2 and -1/2, are doubles, so that nothing is rounded.
\<close>

theorem exploration_rate_counterexample:
  "0 < explorationDecay (config (new_RLTradingAgent (Some options_negative) None)) \<and>
   explorationDecay (config (new_RLTradingAgent (Some options_negative) None)) \<le> 1 \<and>
   length two_episodes = 2 \<and>
   fst (episodes exact (new_RLTradingAgent (Some options_negative) None) two_episodes rng0 0) = None \<and>
   explorationRate (config (fst (snd
     (episodes exact (new_RLTradingAgent (Some options_negative) None) two_episodes rng0 0)))) = - (1 / 2) \<and>
   max (minExploration (config (new_RLTradingAgent (Some options_negative) None)))
       (explorationRate (config (new_RLTradingAgent (Some options_negative) None))
        * explorationDecay (config (new_RLTradingAgent (Some options_negative) None)) ^ 2) = - 1"
proof -
  from two_episodes_config [of exact "new_RLTradingAgent (Some options_negative) None" rng0 0]
  obtain agent' k' where
    e: "episodes exact (new_RLTradingAgent (Some options_negative) None) two_episodes rng0 0
          = (None, agent', k')" and
    c: "config agent' =
          decayed exact (decayed exact (config (new_RLTradingAgent (Some options_negative) None)))"
    by blast
  from c have "explorationRate (config agent') = - (1 / 2)"
    by (simp add: decayed_def exact_def negative_config)
  with e show ?thesis
    by (simp add: negative_config two_episodes_def power2_eq_square)
qed

text \<open>
  C4, amended. Take an agent whose floor \<open>minExploration\<close> is not negative and whose decay
  factor is in (0, 1], and \<open>N \<ge> 1\<close> training episodes that returned. If each product that
  decays the rate is rounded with a relative error of at most \<open>u\<close>, where \<open>0 \<le> u \<le> 1\<close>,
  the exploration rate after the \<open>N\<close> episodes is at least the maximum of the floor and of
  the initial rate times the \<open>N\<close>-th powers of the decay factor and of \<open>1 - u\<close>, and at most
  the \<open>N\<close>-th power of \<open>1 + u\<close> times the maximum of the floor and of the initial rate times
  the \<open>N\<close>-th power of the decay factor. If no product is rounded, it is that maximum.
\<close>

theorem exploration_rate_after_episodes:
  "(0 \<le> u \<and> u \<le> 1 \<and> rounded_within u fl (config agent) (length inputs) \<and>
    0 \<le> minExploration (config agent) \<and>
    0 < explorationDecay (config agent) \<and> explorationDecay (config agent) \<le> 1 \<and>
    inputs \<noteq> [] \<and> episodes fl agent inputs rng k = (None, agent', k') \<longrightarrow>
      max (minExploration (config agent))
          (explorationRate (config agent) * explorationDecay (config agent) ^ length inputs
             * (1 - u) ^ length inputs)
        \<le> explorationRate (config agent') \<and>
      explorationRate (config agent')
        \<le> max (minExploration (config agent))
              (explorationRate (config agent) * explorationDecay (config agent) ^ length inputs)
            * (1 + u) ^ length inputs) \<and>
   (0 \<le> minExploration (config agent) \<and>
    0 < explorationDecay (config agent) \<and> explorationDecay (config agent) \<le> 1 \<and>
    inputs \<noteq> [] \<and> episodes exact agent inputs rng k = (None, agent'', k'') \<longrightarrow>
      explorationRate (config agent'') =
        max (minExploration (config agent))
            (explorationRate (config agent) * explorationDecay (config agent) ^ length inputs))"
proof (intro conjI impI)
  assume a: "0 \<le> u \<and> u \<le> 1 \<and> rounded_within u fl (config agent) (length inputs) \<and>
    0 \<le> minExploration (config agent) \<and>
    0 < explorationDecay (config agent) \<and> explorationDecay (config agent) \<le> 1 \<and>
    inputs \<noteq> [] \<and> episodes fl agent inputs rng k = (None, agent', k')"
  then have c: "config agent' = (decayed fl ^^ length inputs) (config agent)"
    using episodes_config by blast
  from a have "0 < length inputs" by simp
  with a decayed_bounds [of "config agent" u fl "length inputs"]
  show "max (minExploration (config agent))
          (explorationRate (config agent) * explorationDecay (config agent) ^ length inputs
             * (1 - u) ^ length inputs)
        \<le> explorationRate (config agent')"
    and "explorationRate (config agent')
        \<le> max (minExploration (config agent))
              (explorationRate (config agent) * explorationDecay (config agent) ^ length inputs)
            * (1 + u) ^ length inputs"
    by (simp_all only: c)
next
  assume a: "0 \<le> minExploration (config agent) \<and>
    0 < explorationDecay (config agent) \<and> explorationDecay (config agent) \<le> 1 \<and>
    inputs \<noteq> [] \<and> episodes exact agent inputs rng k = (None, agent'', k'')"
  then have c: "config agent'' = (decayed exact ^^ length inputs) (config agent)"
    using episodes_config by blast
  from a have "0 < length inputs" by simp
  with a decayed_bounds [of "config agent" 0 exact "length inputs"] exact_within
  have "max (minExploration (config agent))
            (explorationRate (config agent) * explorationDecay (config agent) ^ length inputs)
          \<le> explorationRate (config agent'') \<and>
        explorationRate (config agent'')
          \<le> max (minExploration (config agent))
            (explorationRate (config agent) * explorationDecay (config agent) ^ length inputs)"
    by (simp add: c)
  then show "explorationRate (config agent'') =
        max (minExploration (config agent))
            (explorationRate (config agent) * explorationDecay (config agent) ^ length inputs)"
    by (auto intro: order_antisym)
qed

text \<open>
  On the default agent and two episodes: without rounding the rate is 0.0990025, and with
  every product rounded upwards by the factor \<open>1 + 2^-53\<close> it is within the bounds.
\<close>

theorem exploration_rate_after_episodes_witness:
  "(0::real) \<le> 1 / 2 ^ 53 \<and> (1::real) / 2 ^ 53 \<le> 1 \<and>
   rounded_within (1 / 2 ^ 53) round_up (config (new_RLTradingAgent None None)) (length two_episodes) \<and>
   0 \<le> minExploration (config (new_RLTradingAgent None None)) \<and>
   0 < explorationDecay (config (new_RLTradingAgent None None)) \<and>
   explorationDecay (config (new_RLTradingAgent None None)) \<le> 1 \<and>
   two_episodes \<noteq> [] \<and>
   fst (episodes round_up (new_RLTradingAgent None None) two_episodes rng0 0) = None \<and>
   max (1 / 100) (1 / 10 * (995 / 1000) ^ 2 * (1 - 1 / 2 ^ 53) ^ 2)
     \<le> explorationRate (config (fst (snd
          (episodes round_up (new_RLTradingAgent None None) two_episodes rng0 0)))) \<and>
   explorationRate (config (fst (snd
       (episodes round_up (new_RLTradingAgent None None) two_episodes rng0 0))))
     \<le> max (1 / 100) (1 / 10 * (995 / 1000) ^ 2) * (1 + 1 / 2 ^ 53) ^ 2 \<and>
   fst (episodes exact (new_RLTradingAgent None None) two_episodes rng0 0) = None \<and>
   explorationRate (config (fst (snd
       (episodes exact (new_RLTradingAgent None None) two_episodes rng0 0)))) = 39601 / 400000"
proof -
  from two_episodes_config [of round_up "new_RLTradingAgent None None" rng0 0] obtain agent' k' where
    e: "episodes round_up (new_RLTradingAgent None None) two_episodes rng0 0 = (None, agent', k')"
    by blast
  from two_episodes_config [of exact "new_RLTradingAgent None None" rng0 0] obtain agent'' k'' where
    e': "episodes exact (new_RLTradingAgent None None) two_episodes rng0 0 = (None, agent'', k'')"
    by blast
  have len: "length two_episodes = 2" and ne: "two_episodes \<noteq> []"
    by (simp_all add: two_episodes_def)
  have c: "0 \<le> minExploration (config (new_RLTradingAgent None None)) \<and>
   0 < explorationDecay (config (new_RLTradingAgent None None)) \<and>
   explorationDecay (config (new_RLTradingAgent None None)) \<le> 1"
    by (simp add: default_config)
  have u: "(0::real) \<le> 1 / 2 ^ 53 \<and> (1::real) / 2 ^ 53 \<le> 1"
    by simp
  note w = round_up_within [of "config (new_RLTradingAgent None None)" "length two_episodes"]
  from exploration_rate_after_episodes
    [of "1 / 2 ^ 53" round_up "new_RLTradingAgent None None" two_episodes rng0 0 agent' k' agent'' k'']
    e e' c u w ne
  have "max (minExploration (config (new_RLTradingAgent None None)))
          (explorationRate (config (new_RLTradingAgent None None))
             * explorationDecay (config (new_RLTradingAgent None None)) ^ length two_episodes
             * (1 - 1 / 2 ^ 53) ^ length two_episodes)
        \<le> explorationRate (config agent')"
    and "explorationRate (config agent')
        \<le> max (minExploration (config (new_RLTradingAgent None None)))
              (explorationRate (config (new_RLTradingAgent None None))
                 * explorationDecay (config (new_RLTradingAgent None None)) ^ length two_episodes)
            * (1 + 1 / 2 ^ 53) ^ length two_episodes"
    and "explorationRate (config agent'') =
        max (minExploration (config (new_RLTradingAgent None None)))
            (explorationRate (config (new_RLTradingAgent None None))
               * explorationDecay (config (new_RLTradingAgent None None)) ^ length two_episodes)"
    by blast+
  then have "max (1 / 100) (1 / 10 * (995 / 1000) ^ 2 * (1 - 1 / 2 ^ 53) ^ 2)
        \<le> explorationRate (config agent')"
    and "explorationRate (config agent')
        \<le> max (1 / 100) (1 / 10 * (995 / 1000) ^ 2) * (1 + 1 / 2 ^ 53) ^ 2"
    and "explorationRate (config agent'') = 39601 / 400000"
    by (simp_all only: default_config len) (simp add: power2_eq_square)
  with e e' c u w ne show ?thesis
    by (simp only: fst_conv snd_conv) simp
qed

section \<open>Cash or position\<close>

lemma sell_all_inv:
  assumes "capital st = Fin c" and "position st = Fin p" and "0 < p" and "0 < price"
  shows "run_inv (sell_all st t price why)"
  using assms by (simp add: run_inv_def sell_all_def Let_def)

lemma trade_step_inv:
  assumes "0 < close (candles ! i)" and "run_inv st"
  shows "run_inv (trade_step cfg candles st i)"
proof -
  from assms(2) obtain c p where
    cp: "capital st = Fin c" "position st = Fin p" "0 \<le> p" "0 < p \<longrightarrow> c = 0"
    unfolding run_inv_def by blast
  show ?thesis
  proof (cases "0 < p")
    case True
    from sell_all_inv [OF cp(1,2) True assms(1)] assms(2) cp True show ?thesis
      by (simp add: trade_step_def Let_def)
  next
    case False
    with cp have p0: "p = 0" by simp
    from assms(1) have ne: "close (candles ! i) \<noteq> 0" by simp
    show ?thesis
    proof (cases "0 < c")
      case True
      with assms(1) have "0 < c / close (candles ! i)" by simp
      with cp p0 ne True show ?thesis
        by (auto simp add: trade_step_def Let_def run_inv_def)
    next
      case False
      with cp p0 assms(2) show ?thesis
        by (simp add: trade_step_def Let_def)
    qed
  qed
qed

lemma equity_step_inv: "run_inv st \<Longrightarrow> run_inv (equity_step candles st i)"
  by (simp add: equity_step_def Let_def run_inv_def)

lemma run_init_inv: "run_inv (run_init cfg)"
  by (simp add: run_init_def run_inv_def)

lemma run_loop_Suc:
  "run_loop cfg candles (Suc n) = run_step cfg candles (run_loop cfg candles n) (30 + n)"
proof -
  have "[30 ..< Suc (30 + n)] = [30 ..< 30 + n] @ [30 + n]"
    by (rule upt_Suc_append) simp
  then have "[30 ..< 30 + Suc n] = [30 ..< 30 + n] @ [30 + n]"
    by (simp only: add_Suc_right)
  then show ?thesis
    unfolding run_loop_def by (simp only: foldl_append foldl.simps)
qed

lemma run_loop_inv:
  assumes "list_all (\<lambda>c. 0 < close c) candles" and "n \<le> length candles - 30"
  shows "run_inv (run_loop cfg candles n)"
  using assms(2)
proof (induction n)
  case 0
  then show ?case by (simp add: run_loop_def run_init_inv)
next
  case (Suc n)
  then have "30 + n < length candles" by simp
  with assms(1) have "0 < close (candles ! (30 + n))"
    by (simp add: list_all_length)
  with Suc show ?case
    by (simp add: run_loop_Suc run_step_def trade_step_inv equity_step_inv)
qed

lemma account_inv: "train_inv l \<Longrightarrow> train_inv (account l a r price)"
  by (simp add: account_def Let_def train_inv_def)

lemma act_inv:
  assumes "0 < price" and "train_inv l"
  shows "train_inv (fst (act l a price nextPrice))"
proof -
  from assms(2) obtain c p where
    cp: "t_capital l = Fin c" "t_position l = Fin p" "0 \<le> c" "0 \<le> p" "0 < p \<longrightarrow> c = 0"
    unfolding train_inv_def by blast
  from assms(1) have ne: "price \<noteq> 0" by simp
  show ?thesis
  proof (cases a)
    case Buy
    with cp ne assms(1) show ?thesis
      by (auto simp add: train_inv_def Let_def)
  next
    case Sell
    with cp ne assms(1) show ?thesis
      by (auto simp add: train_inv_def Let_def)
  next
    case Hold
    with cp show ?thesis
      by (auto simp add: train_inv_def Let_def)
  qed
qed

lemma pass_inv: "0 < price \<Longrightarrow> train_inv l \<Longrightarrow> train_inv (pass l a price nextPrice)"
  by (simp add: pass_def account_inv act_inv)

lemma train_loop_inv:
  assumes "\<forall>i \<in> set is. 0 < close (candles ! i)" and "train_inv l"
  shows "\<exists>l' agent' k'. train_loop candles rng is (l, agent, k) = Inr (l', agent', k') \<and>
           train_inv l'"
  using assms
proof (induction "is" arbitrary: l agent k)
  case Nil
  then show ?case by simp
next
  case (Cons i "is")
  from train_step_ok [of candles rng l agent k i] obtain a agent1 k1 where
    st: "train_step candles rng (l, agent, k) i =
           Inr (pass l a (close (candles ! i)) (close (candles ! (i + 1))), agent1, k1)"
    by blast
  from Cons.prems have "train_inv (pass l a (close (candles ! i)) (close (candles ! (i + 1))))"
    by (simp add: pass_inv)
  from Cons.IH [OF _ this, of agent1 k1] Cons.prems(1) st show ?case
    by simp
qed

lemma train_init_inv: "0 \<le> capital0 \<Longrightarrow> train_inv (train_init capital0)"
  by (simp add: train_inv_def train_init_def)

lemma dip_series_positive: "list_all (\<lambda>c. 0 < close c) dip_series"
  by (simp add: dip_series_def quiet_candle_def dip_candle_def list_all_iff)

text \<open>
  C10, as stated, on fifty candles with negative falling closes under the RSI strategy:
  the first pass of the loop of \<open>run\<close> buys, and the position is negative.
\<close>

theorem negative_position_counterexample:
  "length falling_series = 50 \<and>
   position (run_loop rsi_engine falling_series 1) = Fin (- (10000 / 31)) \<and>
   \<not> Fin 0 \<le> position (run_loop rsi_engine falling_series 1)"
  by code_simp

text \<open>
  C10, amended. On every candle series whose closes are positive, after every number of
  passes of the loop of \<open>run\<close>, and, when the initial capital is not negative, after
  every number of passes of the loop of \<open>train\<close>, the position is not negative and,
  whenever it is positive, the cash capital is 0.
\<close>

theorem cash_or_position:
  "(list_all (\<lambda>c. 0 < close c) candles \<and> n \<le> length candles - 30 \<longrightarrow>
      Fin 0 \<le> position (run_loop cfg candles n) \<and>
      (Fin 0 < position (run_loop cfg candles n) \<longrightarrow> capital (run_loop cfg candles n) = Fin 0)) \<and>
   (list_all (\<lambda>c. 0 < close c) candles \<and> 0 \<le> capital0 \<and> n \<le> length candles - 31 \<longrightarrow>
      (\<exists>l agent' k'.
         train_loop candles rng [30 ..< 30 + n] (train_init capital0, agent, k) = Inr (l, agent', k') \<and>
         Fin 0 \<le> t_position l \<and> (Fin 0 < t_position l \<longrightarrow> t_capital l = Fin 0)))"
proof (intro conjI impI)
  assume h: "list_all (\<lambda>c. 0 < close c) candles \<and> n \<le> length candles - 30"
  then have "run_inv (run_loop cfg candles n)"
    by (simp add: run_loop_inv)
  then show "Fin 0 \<le> position (run_loop cfg candles n)"
    and "Fin 0 < position (run_loop cfg candles n) \<Longrightarrow> capital (run_loop cfg candles n) = Fin 0"
    by (auto simp add: run_inv_def)
next
  assume h: "list_all (\<lambda>c. 0 < close c) candles \<and> 0 \<le> capital0 \<and> n \<le> length candles - 31"
  then have "\<forall>i \<in> set [30 ..< 30 + n]. 0 < close (candles ! i)"
    by (auto simp add: list_all_length)
  from train_loop_inv [OF this train_init_inv, of capital0 rng agent k] h
  obtain l agent' k' where
    "train_loop candles rng [30 ..< 30 + n] (train_init capital0, agent, k) = Inr (l, agent', k')"
    and "train_inv l"
    by blast
  then show "\<exists>l agent' k'.
         train_loop candles rng [30 ..< 30 + n] (train_init capital0, agent, k) = Inr (l, agent', k') \<and>
         Fin 0 \<le> t_position l \<and> (Fin 0 < t_position l \<longrightarrow> t_capital l = Fin 0)"
    by (auto simp add: train_inv_def)
qed

theorem cash_or_position_witness:
  "list_all (\<lambda>c. 0 < close c) dip_series \<and> (20::nat) \<le> length dip_series - 30 \<and>
   Fin 0 \<le> position (run_loop smc_engine dip_series 20) \<and>
   (0::real) \<le> 10000 \<and> (19::nat) \<le> length dip_series - 31 \<and>
   (\<exists>l agent' k'.
      train_loop dip_series rng0 [30 ..< 30 + 19] (train_init 10000, new_RLTradingAgent None None, 0)
        = Inr (l, agent', k') \<and>
      Fin 0 \<le> t_position l)"
proof -
  have h: "list_all (\<lambda>c. 0 < close c) dip_series \<and> (20::nat) \<le> length dip_series - 30 \<and>
    (0::real) \<le> 10000 \<and> (19::nat) \<le> length dip_series - 31"
    by (simp add: dip_series_positive length_dip_series)
  with cash_or_position [of dip_series 20 smc_engine 10000 rng0 "new_RLTradingAgent None None" 0]
    cash_or_position [of dip_series 19 smc_engine 10000 rng0 "new_RLTradingAgent None None" 0]
  show ?thesis
    by blast
qed

end
